theory Spec2Isabelle
  imports Complex_Main
begin

section \<open>Errors and checked list access\<close>

text \<open>
  The converter is Python. Floating-point numbers are idealised as reals; every
  exception the source can raise is a value of \<open>py_error\<close>, and a function that
  can raise returns \<open>py_error + 'a\<close> with \<open>Inl\<close> for the exception.
  \<open>NumpyNonFinite\<close> stands for a numpy division by zero, which raises nothing
  and yields \<open>inf\<close> or \<open>nan\<close>: values the reals do not have.
\<close>

datatype py_error =
    IndexError
  | ZeroDivisionError
  | ValueError
  | UnboundLocalError string
  | SystemExit
  | NumpyNonFinite

definition bindE :: "py_error + 'a \<Rightarrow> ('a \<Rightarrow> py_error + 'b) \<Rightarrow> py_error + 'b" where
  "bindE m f = (case m of Inl e \<Rightarrow> Inl e | Inr v \<Rightarrow> f v)"

definition get :: "'a list \<Rightarrow> nat \<Rightarrow> py_error + 'a" where
  "get xs i = (if i < length xs then Inr (xs ! i) else Inl IndexError)"

text \<open>A list comprehension or loop whose body can raise: the first exception ends it.\<close>

fun mapE :: "('a \<Rightarrow> py_error + 'b) \<Rightarrow> 'a list \<Rightarrow> py_error + 'b list" where
  "mapE f [] = Inr []"
| "mapE f (x # xs) = bindE (f x) (\<lambda>y. bindE (mapE f xs) (\<lambda>ys. Inr (y # ys)))"

section \<open>Python's rounding and \<open>bisect.bisect_left\<close>\<close>

text \<open>\<open>round(x)\<close>: to the nearest integer, a tie going to the even neighbour.\<close>

definition py_round :: "real \<Rightarrow> int" where
  "py_round x =
     (let f = \<lfloor>x\<rfloor>; d = x - of_int f
      in if d < 1 / 2 then f
         else if 1 / 2 < d then f + 1
         else if even f then f else f + 1)"

text \<open>\<open>round(x, n)\<close> for \<open>n\<close> decimals.\<close>

definition py_round_nd :: "real \<Rightarrow> nat \<Rightarrow> real" where
  "py_round_nd x n = of_int (py_round (x * 10 ^ n)) / 10 ^ n"

text \<open>
  \<open>bisect_left(a, x)\<close> of the standard library:
  \<^verbatim>\<open>lo, hi = 0, len(a)
  while lo < hi:
      mid = (lo + hi) // 2
      if a[mid] < x: lo = mid + 1
      else: hi = mid
  return lo\<close>
\<close>

function bisect_loop :: "real list \<Rightarrow> real \<Rightarrow> nat \<Rightarrow> nat \<Rightarrow> nat" where
  "bisect_loop a x lo hi =
     (if lo < hi
      then (let mid = (lo + hi) div 2
            in if a ! mid < x then bisect_loop a x (mid + 1) hi
               else bisect_loop a x lo mid)
      else lo)"
  by pat_completeness auto
termination
  by (relation "measure (\<lambda>(a, x, lo, hi). hi - lo)") auto

declare bisect_loop.simps [simp del]

definition bisect_left :: "real list \<Rightarrow> real \<Rightarrow> nat" where
  "bisect_left a x = bisect_loop a x 0 (length a)"

section \<open>Coordinate transforms\<close>

text \<open>\<open>math.acos\<close> raises ValueError outside \<open>[-1, 1]\<close>.\<close>

definition py_acos :: "real \<Rightarrow> py_error + real" where
  "py_acos z = (if - 1 \<le> z \<and> z \<le> 1 then Inr (arccos z) else Inl ValueError)"

text \<open>\<open>math.atan2(y, x)\<close>, in radians, in \<open>(-pi, pi]\<close>.\<close>

definition py_atan2 :: "real \<Rightarrow> real \<Rightarrow> real" where
  "py_atan2 y x =
     (if 0 < x then arctan (y / x)
      else if x < 0 then (if 0 \<le> y then arctan (y / x) + pi else arctan (y / x) - pi)
      else if 0 < y then pi / 2
      else if y < 0 then - (pi / 2)
      else 0)"

text \<open>
  The rotation and normalisation both transforms share after the cartesian
  coordinates of the rotated direction are known: \<open>norm\<close>, the three divisions
  by it and \<open>acos\<close> of the normalised \<open>z\<close>.
\<close>

definition normalize_xyz :: "real \<Rightarrow> real \<Rightarrow> real \<Rightarrow> py_error + (real \<times> real \<times> real)" where
  "normalize_xyz x_o y_o z_o =
     (let norm = sqrt (x_o * x_o + y_o * y_o + z_o * z_o)
      in if norm = 0 then Inl ZeroDivisionError
         else Inr (x_o * (1 / norm), y_o * (1 / norm), z_o * (1 / norm)))"

definition convert_normal_to_specular_using_cartesian ::
    "real \<Rightarrow> real \<Rightarrow> real \<Rightarrow> py_error + (real \<times> real)" where
  "convert_normal_to_specular_using_cartesian theta_i0 phi_i0 angle_inc =
     (let theta_i = theta_i0 * (pi / 180);
          phi_i = phi_i0 * (pi / 180);
          x_i = sin theta_i * cos phi_i;
          y_i = sin theta_i * sin phi_i;
          z_i = cos theta_i;
          x_r = x_i * cos (angle_inc * pi / 180) - z_i * sin (angle_inc * pi / 180);
          y_r = y_i;
          z_r = x_i * sin (angle_inc * pi / 180) + z_i * cos (angle_inc * pi / 180)
      in bindE (normalize_xyz x_r y_r z_r) (\<lambda>(x_o, y_o, z_o).
         bindE (py_acos z_o) (\<lambda>ac.
           let theta_o = ac * (180 / pi);
               phi_a = (if x_o = 0
                        then (let p0 = (if y_o = 0 then Some 0 else None);
                                  p1 = (if 0 < y_o then Some 90 else p0)
                              in if y_o < 0 then Some 270 else p1)
                        else (let p = arctan (y_o / x_o) * (180 / pi);
                                  p1 = (if x_o < 0 then 180 + p else p)
                              in Some (if 0 < x_o \<and> y_o < 0 then 360 + p1 else p1)))
           in case phi_a of
                None \<Rightarrow> Inl (UnboundLocalError ''phi_o'')
              | Some p \<Rightarrow> Inr (theta_o, if p < 180 then p + 180 else p - 180))))"

definition convert_specular_to_normal_using_cartesian ::
    "real \<Rightarrow> real \<Rightarrow> real \<Rightarrow> py_error + (real \<times> real)" where
  "convert_specular_to_normal_using_cartesian theta_i0 phi_i0 angle_inc =
     (let theta_i = theta_i0 * (pi / 180);
          phi_i = phi_i0 * (pi / 180);
          x_i = sin theta_i * cos phi_i;
          y_i = sin theta_i * sin phi_i;
          z_i = cos theta_i;
          x_r = - x_i * cos (angle_inc * pi / 180) + z_i * sin (angle_inc * pi / 180);
          y_r = y_i;
          z_r = x_i * sin (angle_inc * pi / 180) + z_i * cos (angle_inc * pi / 180)
      in bindE (normalize_xyz x_r y_r z_r) (\<lambda>(x_o, y_o, z_o).
         bindE (py_acos z_o) (\<lambda>ac.
           let theta_o = ac * (180 / pi);
               phi_o = (if py_round_nd x_o 2 = 0
                        then (let p0 = (if py_round_nd y_o 0 = 0
                                        then Some (phi_i * (180 / pi)) else None);
                                  p1 = (if 0 < y_o then Some 270 else p0)
                              in if y_o < 0 then Some 90 else p1)
                        else (let p = \<bar>py_atan2 y_o x_o * (180 / pi)\<bar>
                              in Some (if 0 < py_round_nd y_o 3 then 360 - p else p)))
           in case phi_o of
                None \<Rightarrow> Inl (UnboundLocalError ''phi_o'')
              | Some p \<Rightarrow> Inr (py_round_nd theta_o 2, py_round_nd p 2))))"

section \<open>Resampler: one target cell of \<open>convert_zemax_speos_bsdf_data\<close>\<close>

text \<open>
  A block is indexed \<open>[azimuth index][radial index]\<close>. With \<open>bool_speos_brdf = 0\<close>
  the source is what the Zemax reader returns: one radial and one azimuth axis (Python
  lists of floats) and a 4-dimensional array read as \<open>bsdfData[i][j]\<close>. With
  \<open>bool_speos_brdf = 1\<close> it is what the Speos reader returns: per block a radial axis
  (a numpy array), an azimuth axis (a Python list) and the block itself, all read at the
  running \<open>index\<close>.
\<close>

type_synonym block = "real list list"

datatype source =
    ZemaxSource "real list" "real list" "block list list"
  | SpeosSource "real list list" "real list list" "block list"

definition py_div :: "real \<Rightarrow> real \<Rightarrow> py_error + real" where
  "py_div a b = (if b = 0 then Inl ZeroDivisionError else Inr (a / b))"

definition np_div :: "real \<Rightarrow> real \<Rightarrow> py_error + real" where
  "np_div a b = (if b = 0 then Inl NumpyNonFinite else Inr (a / b))"

text \<open>
  The bracketing indices and the weight on the radial axis:
  \<open>(indexInfTheta, indexSupTheta, coeffTheta)\<close>.
\<close>

definition bracket_theta :: "bool \<Rightarrow> real list \<Rightarrow> real \<Rightarrow> py_error + (nat \<times> nat \<times> real)" where
  "bracket_theta numpy_axis scatterRadial newTheta =
     (let indexInfTheta = bisect_left scatterRadial newTheta
      in if indexInfTheta = 0 then Inr (indexInfTheta, indexInfTheta, 0)
         else if int indexInfTheta \<le> int (length scatterRadial) - 1
         then (let indexInf = indexInfTheta - 1; indexSup = indexInf + 1
               in bindE (get scatterRadial indexInf) (\<lambda>thetaInf.
                  bindE (get scatterRadial indexSup) (\<lambda>thetaSup.
                  bindE ((if numpy_axis then np_div else py_div)
                           (newTheta - thetaInf) (thetaSup - thetaInf)) (\<lambda>coeffTheta.
                  Inr (indexInf, indexSup, coeffTheta)))))
         else (let indexInf = indexInfTheta - 1 in Inr (indexInf, indexInf, 0)))"

text \<open>
  The same on the azimuth axis: \<open>(indexInfPhi, indexSupPhi, coeffPhi)\<close>. The last
  branch of the source sets \<open>indexSupPhi = indexInfPhi + 1\<close>.
\<close>

definition bracket_phi :: "real list \<Rightarrow> real \<Rightarrow> py_error + (nat \<times> nat \<times> real)" where
  "bracket_phi scatterAzimuth newPhi =
     (let indexInfPhi = bisect_left scatterAzimuth newPhi
      in if indexInfPhi = 0 then Inr (indexInfPhi, indexInfPhi, 0)
         else if int indexInfPhi \<le> int (length scatterAzimuth) - 1
         then (let indexInf = indexInfPhi - 1; indexSup = indexInf + 1
               in bindE (get scatterAzimuth indexInf) (\<lambda>phiInf.
                  bindE (get scatterAzimuth indexSup) (\<lambda>phiSup.
                  bindE (py_div (newPhi - phiInf) (phiSup - phiInf)) (\<lambda>coeffPhi.
                  Inr (indexInf, indexSup, coeffPhi)))))
         else (let indexInf = indexInfPhi - 1 in Inr (indexInf, indexInf + 1, 0)))"

text \<open>The axes and the block the cell \<open>(i, j)\<close> reads, at the running \<open>index\<close>.\<close>

definition source_radial :: "source \<Rightarrow> nat \<Rightarrow> py_error + real list" where
  "source_radial src index =
     (case src of ZemaxSource scatterRadial _ _ \<Rightarrow> Inr scatterRadial
                | SpeosSource scatterRadial_save _ _ \<Rightarrow> get scatterRadial_save index)"

definition source_azimuth :: "source \<Rightarrow> nat \<Rightarrow> py_error + real list" where
  "source_azimuth src index =
     (case src of ZemaxSource _ scatterAzimuth _ \<Rightarrow> Inr scatterAzimuth
                | SpeosSource _ scatterAzimuth_save _ \<Rightarrow> get scatterAzimuth_save index)"

definition source_block :: "source \<Rightarrow> nat \<Rightarrow> nat \<Rightarrow> nat \<Rightarrow> py_error + block" where
  "source_block src i j index =
     (case src of ZemaxSource _ _ bsdfData \<Rightarrow> bindE (get bsdfData i) (\<lambda>row. get row j)
                | SpeosSource _ _ bsdfData \<Rightarrow> get bsdfData index)"

definition is_speos :: "source \<Rightarrow> bool" where
  "is_speos src = (case src of ZemaxSource _ _ _ \<Rightarrow> False | SpeosSource _ _ _ \<Rightarrow> True)"

definition block_at :: "block \<Rightarrow> nat \<Rightarrow> nat \<Rightarrow> py_error + real" where
  "block_at b indexPhi indexTheta = bindE (get b indexPhi) (\<lambda>row. get row indexTheta)"

definition blend :: "real \<Rightarrow> real \<Rightarrow> real \<Rightarrow> real \<Rightarrow> real \<Rightarrow> real \<Rightarrow> real" where
  "blend bsdf1 bsdf2 bsdf3 bsdf4 coeffTheta coeffPhi =
     (let bsdfN1 = bsdf1 * (1 - coeffTheta) + bsdf2 * coeffTheta;
          bsdfN2 = bsdf3 * (1 - coeffTheta) + bsdf4 * coeffTheta
      in bsdfN1 * (1 - coeffPhi) + bsdfN2 * coeffPhi)"

text \<open>
  The interpolation of one cell, from the source coordinates \<open>(newTheta, newPhi)\<close>
  (symmetry already folded): the body of the \<open>else\<close> branch after the fold.
\<close>

definition interpolate_cell :: "source \<Rightarrow> nat \<Rightarrow> nat \<Rightarrow> nat \<Rightarrow> real \<Rightarrow> real \<Rightarrow> py_error + real" where
  "interpolate_cell src i j index newTheta newPhi =
     bindE (source_radial src index) (\<lambda>scatterRadial.
     bindE (source_azimuth src index) (\<lambda>scatterAzimuth.
     bindE (bracket_theta (is_speos src) scatterRadial newTheta)
       (\<lambda>(indexInfTheta, indexSupTheta, coeffTheta).
     bindE (bracket_phi scatterAzimuth newPhi)
       (\<lambda>(indexInfPhi, indexSupPhi, coeffPhi).
     bindE (source_block src i j index) (\<lambda>b.
     bindE (block_at b indexInfPhi indexInfTheta) (\<lambda>bsdf1.
     bindE (block_at b indexInfPhi indexSupTheta) (\<lambda>bsdf2.
     bindE (block_at b indexSupPhi indexInfTheta) (\<lambda>bsdf3.
     bindE (block_at b indexSupPhi indexSupTheta) (\<lambda>bsdf4.
     Inr (blend bsdf1 bsdf2 bsdf3 bsdf4 coeffTheta coeffPhi))))))))))"

definition fold_phi :: "string \<Rightarrow> real \<Rightarrow> real" where
  "fold_phi symmetry newPhi =
     (if symmetry = ''PlaneSymmetrical'' \<and> 180 < newPhi then 360 - newPhi else newPhi)"

text \<open>The source coordinates of a target direction: the transform the mode selects.\<close>

definition source_coordinates :: "source \<Rightarrow> real \<Rightarrow> real \<Rightarrow> real \<Rightarrow> real \<Rightarrow> py_error + (real \<times> real)" where
  "source_coordinates src currentSampleRot currentAngleInc currentTheta currentPhi =
     (if is_speos src
      then convert_specular_to_normal_using_cartesian currentTheta currentPhi currentSampleRot
      else convert_normal_to_specular_using_cartesian currentTheta currentPhi currentAngleInc)"

text \<open>The value the loop body stores for the target cell \<open>(i, j, k, l)\<close>.\<close>

definition resample_cell ::
    "string \<Rightarrow> source \<Rightarrow> nat \<Rightarrow> nat \<Rightarrow> nat \<Rightarrow> real \<Rightarrow> real \<Rightarrow> real \<Rightarrow> real \<Rightarrow> py_error + real" where
  "resample_cell symmetry src i j index currentSampleRot currentAngleInc currentTheta currentPhi =
     bindE (source_coordinates src currentSampleRot currentAngleInc currentTheta currentPhi)
       (\<lambda>(newTheta, newPhi).
          if 90 < newTheta \<or> newTheta < 0 then Inr 0
          else interpolate_cell src i j index newTheta (fold_phi symmetry newPhi))"

section \<open>Precision resolution\<close>

definition round_to_multiple :: "real \<Rightarrow> real \<Rightarrow> py_error + real" where
  "round_to_multiple number multiple =
     bindE (py_div number multiple) (\<lambda>q. Inr (multiple * of_int (py_round q)))"

text \<open>
  \<open>phi_theta_recommended_precision\<close>. The lengths are Python integers, so
  \<open>len(...) - 1\<close> is computed in \<open>int\<close>; every \<open>/\<close> is a true division and
  raises ZeroDivisionError on a zero divisor. The first assignment to each precision
  is overwritten, but its division is still evaluated.
\<close>

definition phi_theta_recommended_precision ::
    "real list \<Rightarrow> real list \<Rightarrow> string \<Rightarrow> py_error + (real \<times> real)" where
  "phi_theta_recommended_precision scatterRadial scatterAzimuth symmetry =
     (let nbTheta_max = (1000 :: int);
          theta_max = (90 :: real);
          multiple = (1 / 2 :: real);
          phi_max = (if symmetry = ''PlaneSymmetrical'' then 180 else (360 :: real));
          nbPhi_max = (if symmetry = ''PlaneSymmetrical'' then 500 else (1000 :: int))
      in bindE (py_div theta_max (of_int (int (length scatterRadial)))) (\<lambda>_.
         bindE (if nbTheta_max < int (length scatterRadial)
                then py_div theta_max (of_int (nbTheta_max - 1))
                else py_div theta_max (of_int (int (length scatterRadial) - 1))) (\<lambda>qTheta.
         bindE (round_to_multiple (py_round_nd qTheta 1) multiple) (\<lambda>precisionTheta.
         bindE (py_div phi_max (of_int (int (length scatterAzimuth)))) (\<lambda>_.
         bindE (if nbTheta_max < int (length scatterAzimuth)
                then py_div phi_max (of_int (nbPhi_max - 1))
                else py_div phi_max (of_int (int (length scatterAzimuth) - 1))) (\<lambda>qPhi.
         bindE (round_to_multiple (py_round_nd qPhi 1) multiple) (\<lambda>precisionPhi.
         Inr (precisionTheta, precisionPhi))))))))"

text \<open>
  The specification's words: \<open>r\<close> is a nearest multiple of \<open>m\<close> to \<open>q\<close> when it
  is a multiple of \<open>m\<close> and no multiple of \<open>m\<close> is closer to \<open>q\<close>.
\<close>

definition nearest_multiple :: "real \<Rightarrow> real \<Rightarrow> real \<Rightarrow> bool" where
  "nearest_multiple m q r \<longleftrightarrow>
     (\<exists>k::int. r = m * of_int k) \<and> (\<forall>j::int. \<bar>r - q\<bar> \<le> \<bar>m * of_int j - q\<bar>)"

section \<open>Normalizer\<close>

text \<open>
  A dataset is indexed \<open>[i][j]\<close> and holds one block per slice. \<open>tisData\<close> and
  \<open>normalizationBsdf\<close> are indexed the same way and hold one number per slice.
\<close>

definition get2 :: "'a list list \<Rightarrow> nat \<Rightarrow> nat \<Rightarrow> py_error + 'a" where
  "get2 a i j = bindE (get a i) (\<lambda>row. get row j)"

definition set2 :: "'a list list \<Rightarrow> nat \<Rightarrow> nat \<Rightarrow> 'a \<Rightarrow> 'a list list" where
  "set2 a i j v = a[i := (a ! i)[j := v]]"

text \<open>\<open>min\<close> and \<open>max\<close> of a sequence raise ValueError when it is empty.\<close>

definition py_min :: "real list \<Rightarrow> py_error + real" where
  "py_min xs = (if xs = [] then Inl ValueError else Inr (Min (set xs)))"

definition py_max :: "real list \<Rightarrow> py_error + real" where
  "py_max xs = (if xs = [] then Inl ValueError else Inr (Max (set xs)))"

text \<open>
  One row of \<open>(1 / pi) * block_data * sin(theta_rad) * cos(theta_rad)\<close>: numpy
  multiplies element by element along the last axis, stretches an operand of length 1
  and raises ValueError when the lengths differ otherwise.
\<close>

definition integrande_row :: "real list \<Rightarrow> real list \<Rightarrow> py_error + real list" where
  "integrande_row row theta_rad =
     (let cell = (\<lambda>v t. 1 / pi * v * sin t * cos t)
      in if length row = length theta_rad then Inr (map2 cell row theta_rad)
         else if length row = 1 then Inr (map (cell (hd row)) theta_rad)
         else if length theta_rad = 1 then Inr (map (\<lambda>v. cell v (hd theta_rad)) row)
         else Inl ValueError)"

text \<open>
  \<open>interp2d\<close> and \<open>nquad\<close> are scipy's, not code of this repository: the
  normalizer takes them as the parameter \<open>quad\<close>, which receives the two axes in
  radians, the integrand and the two integration ranges, and returns \<open>r\<close> (the
  integral and its error estimate) or raises.
\<close>

type_synonym quadrature =
  "real list \<Rightarrow> real list \<Rightarrow> block \<Rightarrow> real \<times> real \<Rightarrow> real \<times> real \<Rightarrow> py_error + (real \<times> real)"

text \<open>
  The integral of one slice: the integrand on the sample grid, the integration ranges and
  the call of the quadrature; the result is \<open>r\<close>.
\<close>

definition slice_integral ::
    "quadrature \<Rightarrow> real list \<Rightarrow> real list \<Rightarrow> bool \<Rightarrow> block \<Rightarrow> py_error + (real \<times> real)" where
  "slice_integral quad line_theta line_phi bool_zemax0_speos1 slice =
     (let block_data = (if bool_zemax0_speos1 then transpose slice else slice);
          theta_rad = map (\<lambda>d. d * pi / 180) line_theta;
          phi_rad = map (\<lambda>d. d * pi / 180) line_phi
      in bindE (mapE (\<lambda>row. integrande_row row theta_rad) block_data) (\<lambda>integrande.
         bindE (py_min theta_rad) (\<lambda>theta_lo. bindE (py_max theta_rad) (\<lambda>theta_hi.
         bindE (py_min phi_rad) (\<lambda>phi_lo. bindE (py_max phi_rad) (\<lambda>phi_hi.
         quad theta_rad phi_rad integrande (theta_lo, theta_hi) (phi_lo, phi_hi)))))))"

text \<open>
  The body of the double loop for the slice \<open>(i, j)\<close>, on the state
  \<open>(normalizationBsdf, bsdfData)\<close>. In the branch \<open>IntegralValue \<le> 0\<close> the source
  evaluates the comparison \<open>normalizationBsdf[i][j] == 1\<close> and discards it, so
  \<open>normalizationBsdf\<close> is unchanged there. With \<open>bool_log\<close> the report reads
  \<open>tisData[i][j]\<close> in either branch.
\<close>

definition normalize_slice ::
    "quadrature \<Rightarrow> real list \<Rightarrow> real list \<Rightarrow> real list list \<Rightarrow> bool \<Rightarrow> bool \<Rightarrow> nat \<Rightarrow> nat
       \<Rightarrow> real list list \<times> block list list \<Rightarrow> py_error + (real list list \<times> block list list)" where
  "normalize_slice quad line_theta line_phi tisData bool_zemax0_speos1 bool_log i j st =
     (let normalizationBsdf = fst st; bsdfData = snd st
      in bindE (get2 bsdfData i j) (\<lambda>slice.
         bindE (slice_integral quad line_theta line_phi bool_zemax0_speos1 slice) (\<lambda>r.
         let IntegralValue = \<bar>fst r\<bar>
         in bindE (if 0 < IntegralValue
                   then bindE (get2 tisData i j) (\<lambda>tis.
                          Inr (set2 normalizationBsdf i j (tis / IntegralValue)))
                   else Inr normalizationBsdf) (\<lambda>normalizationBsdf'.
            bindE (if bool_log then get2 tisData i j else Inr 0) (\<lambda>_.
            bindE (get2 normalizationBsdf' i j) (\<lambda>factor.
            Inr (normalizationBsdf',
                 set2 bsdfData i j (map (map (\<lambda>v. v * factor)) slice))))))))"

fun foldE :: "('a \<Rightarrow> 's \<Rightarrow> py_error + 's) \<Rightarrow> 'a list \<Rightarrow> 's \<Rightarrow> py_error + 's" where
  "foldE f [] s = Inr s"
| "foldE f (x # xs) s = bindE (f x s) (foldE f xs)"

definition normalize_bsdf_data ::
    "quadrature \<Rightarrow> nat \<Rightarrow> nat \<Rightarrow> real list \<Rightarrow> real list \<Rightarrow> real list list \<Rightarrow> block list list
       \<Rightarrow> bool \<Rightarrow> bool \<Rightarrow> py_error + (real list list \<times> block list list)" where
  "normalize_bsdf_data quad nbSampleRotation nbAngleIncidence line_theta line_phi tisData bsdfData
       bool_zemax0_speos1 bool_log =
     foldE (\<lambda>(i, j). normalize_slice quad line_theta line_phi tisData bool_zemax0_speos1 bool_log i j)
       (List.product [0..<nbSampleRotation] [0..<nbAngleIncidence])
       (replicate nbSampleRotation (replicate nbAngleIncidence 0), bsdfData)"

text \<open>
  A quadrature to run the normalizer on concrete data: the composite trapezoid rule on the
  sample grid, which is the exact integral of the piecewise bilinear interpolant that
  \<open>interp2d\<close> builds (\<open>nquad\<close> approximates that integral).
\<close>

fun trapz :: "real list \<Rightarrow> real list \<Rightarrow> real" where
  "trapz (x0 # x1 # xs) (y0 # y1 # ys) = (x1 - x0) * (y0 + y1) / 2 + trapz (x1 # xs) (y1 # ys)"
| "trapz _ _ = 0"

definition trapezoid_quadrature :: quadrature where
  "trapezoid_quadrature theta_rad phi_rad integrande theta_range phi_range =
     Inr (trapz phi_rad (map (trapz theta_rad) integrande), 0)"

section \<open>Text files, strings and printed output\<close>

text \<open>
  A text file is the list of its lines, each with its line terminator (the last one
  possibly without). \<open>readline\<close> returns the next line, and the empty string at the end
  of the file. A reader runs on the lines still unread and the lines printed so far, and
  returns a value or raises.
\<close>

definition nl :: char where "nl = CHR 0x0A"
definition tab :: char where "tab = CHR 0x09"

type_synonym io_state = "string list \<times> string list"
type_synonym 'a io = "io_state \<Rightarrow> (py_error + 'a) \<times> io_state"

definition returnIO :: "'a \<Rightarrow> 'a io" where
  "returnIO v s = (Inr v, s)"

definition raiseIO :: "py_error \<Rightarrow> 'a io" where
  "raiseIO e s = (Inl e, s)"

definition bindIO :: "'a io \<Rightarrow> ('a \<Rightarrow> 'b io) \<Rightarrow> 'b io" where
  "bindIO m f s = (case m s of (Inl e, s') \<Rightarrow> (Inl e, s') | (Inr v, s') \<Rightarrow> f v s')"

definition liftE :: "py_error + 'a \<Rightarrow> 'a io" where
  "liftE r s = (r, s)"

definition readline :: "string io" where
  "readline s = (case fst s of [] \<Rightarrow> (Inr [], s) | l # ls \<Rightarrow> (Inr l, (ls, snd s)))"

definition print :: "string \<Rightarrow> unit io" where
  "print msg s = (Inr (), (fst s, snd s @ [msg]))"

fun repeatIO :: "nat \<Rightarrow> 'a io \<Rightarrow> 'a list io" where
  "repeatIO 0 m = returnIO []"
| "repeatIO (Suc n) m = bindIO m (\<lambda>x. bindIO (repeatIO n m) (\<lambda>xs. returnIO (x # xs)))"

text \<open>The lines of a text, as \<open>readline\<close> will return them.\<close>

fun file_lines_acc :: "string \<Rightarrow> string \<Rightarrow> string list" where
  "file_lines_acc cur [] = (if cur = [] then [] else [cur])"
| "file_lines_acc cur (c # cs) =
     (if c = nl then (cur @ [c]) # file_lines_acc [] cs else file_lines_acc (cur @ [c]) cs)"

definition file_lines :: "string \<Rightarrow> string list" where
  "file_lines text = file_lines_acc [] text"

text \<open>
  Python string operations, on ASCII text: \<open>isspace\<close>, \<open>strip()\<close>, \<open>split()\<close>
  (runs of white space separate, no empty token), \<open>split(sep)\<close> (every separator
  separates, empty tokens kept), \<open>in\<close>, \<open>lower()\<close>, and the extension
  \<open>os.path.splitext(p)[1]\<close> with \<open>/\<close> as the path separator.
\<close>

definition is_space :: "char \<Rightarrow> bool" where
  "is_space c = (c \<in> set [CHR '' '', CHR 0x09, CHR 0x0A, CHR 0x0B, CHR 0x0C, CHR 0x0D,
                           CHR 0x1C, CHR 0x1D, CHR 0x1E, CHR 0x1F])"

definition strip :: "string \<Rightarrow> string" where
  "strip s = rev (dropWhile is_space (rev (dropWhile is_space s)))"

fun split_ws_acc :: "string \<Rightarrow> string \<Rightarrow> string list" where
  "split_ws_acc cur [] = (if cur = [] then [] else [cur])"
| "split_ws_acc cur (c # cs) =
     (if is_space c
      then (if cur = [] then split_ws_acc [] cs else cur # split_ws_acc [] cs)
      else split_ws_acc (cur @ [c]) cs)"

definition split_ws :: "string \<Rightarrow> string list" where
  "split_ws s = split_ws_acc [] s"

fun split_on_acc :: "char \<Rightarrow> string \<Rightarrow> string \<Rightarrow> string list" where
  "split_on_acc sep cur [] = [cur]"
| "split_on_acc sep cur (c # cs) =
     (if c = sep then cur # split_on_acc sep [] cs else split_on_acc sep (cur @ [c]) cs)"

definition split_on :: "char \<Rightarrow> string \<Rightarrow> string list" where
  "split_on sep s = split_on_acc sep [] s"

fun has_substring :: "string \<Rightarrow> string \<Rightarrow> bool" where
  "has_substring sub [] = (sub = [])"
| "has_substring sub (c # cs) = (take (length sub) (c # cs) = sub \<or> has_substring sub cs)"

definition lower_char :: "char \<Rightarrow> char" where
  "lower_char c =
     (case map_of (zip ''ABCDEFGHIJKLMNOPQRSTUVWXYZ'' ''abcdefghijklmnopqrstuvwxyz'') c of
        None \<Rightarrow> c
      | Some d \<Rightarrow> d)"

definition lower :: "string \<Rightarrow> string" where
  "lower s = map lower_char s"

text \<open>
  \<open>splitext\<close>: the extension starts at the last dot of the last path component,
  unless only dots precede it in that component.
\<close>

definition splitext_ext :: "string \<Rightarrow> string" where
  "splitext_ext p =
     (let name = rev (takeWhile (\<lambda>c. c \<noteq> CHR ''/'') (rev p));
          ext = rev (takeWhile (\<lambda>c. c \<noteq> CHR ''.'') (rev name));
          stem = take (length name - length ext - 1) name
      in if CHR ''.'' \<in> set name \<and> list_ex (\<lambda>c. c \<noteq> CHR ''.'') stem then CHR ''.'' # ext else [])"

text \<open>
  \<open>float\<close> and \<open>int\<close> on a string are Python built-ins: the readers take them as
  parameters, \<open>None\<close> standing for ValueError. \<open>plain_builtins\<close> is an instance
  for running a reader on concrete files: it reads plain decimal literals (an optional
  sign, digits, an optional fraction) with white space around them, and nothing else.
\<close>

record builtins =
  float_of :: "string \<Rightarrow> real option"
  int_of :: "string \<Rightarrow> int option"

definition py_float :: "builtins \<Rightarrow> string \<Rightarrow> py_error + real" where
  "py_float B s = (case float_of B s of None \<Rightarrow> Inl ValueError | Some x \<Rightarrow> Inr x)"

definition py_int :: "builtins \<Rightarrow> string \<Rightarrow> py_error + int" where
  "py_int B s = (case int_of B s of None \<Rightarrow> Inl ValueError | Some n \<Rightarrow> Inr n)"

definition is_digit :: "char \<Rightarrow> bool" where
  "is_digit c = (48 \<le> (of_char c :: nat) \<and> (of_char c :: nat) \<le> 57)"

definition digits_value :: "string \<Rightarrow> nat" where
  "digits_value ds = foldl (\<lambda>acc c. 10 * acc + (of_char c - 48)) 0 ds"

definition unsigned_int :: "string \<Rightarrow> nat option" where
  "unsigned_int ds = (if ds \<noteq> [] \<and> list_all is_digit ds then Some (digits_value ds) else None)"

definition unsigned_decimal :: "string \<Rightarrow> real option" where
  "unsigned_decimal s =
     (let ip = takeWhile (\<lambda>c. c \<noteq> CHR ''.'') s; rest = dropWhile (\<lambda>c. c \<noteq> CHR ''.'') s
      in if rest = [] then map_option real (unsigned_int ip)
         else (let fp = tl rest
               in if (ip = [] \<and> fp = []) \<or> \<not> list_all is_digit ip \<or> \<not> list_all is_digit fp
                  then None
                  else Some (real (digits_value ip) + real (digits_value fp) / 10 ^ length fp)))"

definition signed :: "(string \<Rightarrow> 'a option) \<Rightarrow> ('a \<Rightarrow> 'b) \<Rightarrow> ('a \<Rightarrow> 'b) \<Rightarrow> string \<Rightarrow> 'b option" where
  "signed parse pos neg s =
     (case strip s of
        [] \<Rightarrow> None
      | c # cs \<Rightarrow> if c = CHR ''-'' then map_option neg (parse cs)
                  else if c = CHR ''+'' then map_option pos (parse cs)
                  else map_option pos (parse (c # cs)))"

definition plain_builtins :: builtins where
  "plain_builtins =
     \<lparr> float_of = signed unsigned_decimal (\<lambda>x. x) (\<lambda>x. - x),
       int_of = signed unsigned_int int (\<lambda>n. - int n) \<rparr>"

text \<open>
  Python compares a \<open>str\<close> with an \<open>int\<close> as unequal, whatever their values.
\<close>

definition str_eq_int :: "string \<Rightarrow> int \<Rightarrow> bool" where
  "str_eq_int s n = False"

text \<open>
  A numpy array of floats is created with sizes that must not be negative, and a row of
  it is assigned from a list of strings: each string is converted, a list of length 1 is
  stretched to the row, any other length mismatch raises ValueError.
\<close>

definition np_size :: "int \<Rightarrow> py_error + nat" where
  "np_size n = (if n < 0 then Inl ValueError else Inr (nat n))"

definition np_assign_row :: "builtins \<Rightarrow> nat \<Rightarrow> string list \<Rightarrow> py_error + real list" where
  "np_assign_row B n tokens =
     bindE (mapE (py_float B) tokens) (\<lambda>vals.
       if length vals = n then Inr vals
       else if length vals = 1 then Inr (replicate n (hd vals))
       else Inl ValueError)"

text \<open>\<open>np.transpose\<close> of an \<open>n\<close> by \<open>m\<close> array given as its \<open>n\<close> rows.\<close>

definition np_transpose :: "nat \<Rightarrow> real list list \<Rightarrow> real list list" where
  "np_transpose m rows = (if rows = [] then replicate m [] else transpose rows)"

section \<open>Written files\<close>

text \<open>
  A writer builds \<open>nLines\<close>, the strings \<open>writelines\<close> concatenates into the file.
  The strings are kept as pieces: literal text, \<open>str(x)\<close> of a float (\<open>Num\<close>) and
  \<open>"{:.3e}".format(x)\<close> (\<open>Sci\<close>), so that the number a writer formats stays
  readable in its output; \<open>render\<close> is the file's text for given formatters of floats.
  The diagnostics a writer prints are not part of its result.
\<close>

datatype piece = Lit string | Num real | Sci real

definition render_piece :: "(real \<Rightarrow> string) \<Rightarrow> (real \<Rightarrow> string) \<Rightarrow> piece \<Rightarrow> string" where
  "render_piece str_float sci_float p =
     (case p of Lit s \<Rightarrow> s | Num x \<Rightarrow> str_float x | Sci x \<Rightarrow> sci_float x)"

definition render :: "(real \<Rightarrow> string) \<Rightarrow> (real \<Rightarrow> string) \<Rightarrow> piece list \<Rightarrow> string" where
  "render str_float sci_float ps = concat (map (render_piece str_float sci_float) ps)"

text \<open>\<open>str(n)\<close> of an integer.\<close>

fun str_nat :: "nat \<Rightarrow> string" where
  "str_nat n =
     (if n < 10 then [''0123456789'' ! n]
      else str_nat (n div 10) @ [''0123456789'' ! (n mod 10)])"

declare str_nat.simps [simp del]

definition str_int :: "int \<Rightarrow> string" where
  "str_int n = (if n < 0 then CHR ''-'' # str_nat (nat (- n)) else str_nat (nat n))"

section \<open>Speos writer\<close>

definition write_speos_header_bsdf ::
    "int \<Rightarrow> int list \<Rightarrow> string \<Rightarrow> nat \<Rightarrow> nat \<Rightarrow> real list \<Rightarrow> real list \<Rightarrow> real list list
       \<Rightarrow> py_error + piece list" where
  "write_speos_header_bsdf binaryMode anisotropyVector scatterType nbSampleRotation
       nbAngleIncidence sampleRotation angleIncidence tisData =
     (let measurementDescription = ''Measurement description'';
          comment = ''Comment'';
          nLines0 = [Lit (''OPTIS - Anisotropic BSDF surface file v7.0'' @ [nl]),
                     Lit (str_int binaryMode @ [nl]),
                     Lit (comment @ [nl]),
                     Lit (str_int (int (length measurementDescription)) @ [nl]),
                     Lit (measurementDescription @ [nl])]
      in bindE (get anisotropyVector 0) (\<lambda>a0.
         bindE (get anisotropyVector 1) (\<lambda>a1.
         bindE (get anisotropyVector 2) (\<lambda>a2.
         let nLines1 = nLines0
                 @ [Lit (str_int a0 @ [tab] @ str_int a1 @ [tab] @ str_int a2 @ [nl])];
             nLines2 = nLines1
                 @ (if scatterType = ''BRDF''
                    then [Lit (''1'' @ [tab] @ ''0'' @ [nl]), Lit (str_int 1 @ [nl])]
                    else if scatterType = ''BTDF''
                    then [Lit (''0'' @ [tab] @ ''1'' @ [nl]), Lit (str_int 0 @ [nl])]
                    else []);
             nLines3 = nLines2 @ [Lit (str_int (int nbSampleRotation) @ [nl])]
         in bindE (mapE (\<lambda>i. bindE (get sampleRotation i) (\<lambda>v. Inr [Num v, Lit [tab]]))
                     [0..<nbSampleRotation]) (\<lambda>rotations.
            let nLines4 = nLines3 @ concat rotations
                    @ (if nbSampleRotation \<noteq> 0 then [Lit [nl]] else [])
            in bindE (mapE (\<lambda>k.
                        bindE (mapE (\<lambda>i. bindE (get angleIncidence i) (\<lambda>v. Inr [Num v, Lit [tab]]))
                                 [0..<nbAngleIncidence]) (\<lambda>incidences.
                        Inr ([Lit (str_int (int nbAngleIncidence) @ [nl])] @ concat incidences
                             @ (if nbAngleIncidence \<noteq> 0 then [Lit [nl]] else []))))
                        [0..<nbSampleRotation]) (\<lambda>incidenceBlocks.
               bindE (get angleIncidence 0) (\<lambda>incidence0.
               bindE (get2 tisData 0 0) (\<lambda>tis00.
               Inr (nLines4 @ concat incidenceBlocks
                    @ [Num incidence0, Lit ([tab] @ ''0'' @ [nl]),
                       Lit [nl],
                       Lit (''2'' @ [nl]),
                       Lit (''350'' @ [tab]), Num (100 * tis00), Lit [nl],
                       Lit (''850'' @ [tab]), Num (100 * tis00), Lit [nl]])))))))))"

text \<open>
  The value written for the entry \<open>(k, phi_idx)\<close> of the slice \<open>(i, j)\<close>: nothing
  when the scatter type is neither BRDF nor BTDF.
\<close>

definition speos_value ::
    "string \<Rightarrow> real \<Rightarrow> block list list \<Rightarrow> nat \<Rightarrow> nat \<Rightarrow> nat \<Rightarrow> nat \<Rightarrow> py_error + piece list" where
  "speos_value scatterType currentTheta bsdfDataSpeos i j k phi_idx =
     (if scatterType = ''BRDF''
      then bindE (get2 bsdfDataSpeos i j) (\<lambda>slice. bindE (get2 slice k phi_idx) (\<lambda>v.
             Inr [Lit [tab], Num v]))
      else if scatterType = ''BTDF''
      then (let thetas_cosine = cos ((180 - currentTheta) * pi / 180)
            in bindE (get2 bsdfDataSpeos i j) (\<lambda>slice. bindE (get2 slice k phi_idx) (\<lambda>v.
                 Inr [Lit [tab], Num (thetas_cosine * v)])))
      else Inr [])"

definition speos_slice ::
    "string \<Rightarrow> real list \<Rightarrow> real list \<Rightarrow> block list list \<Rightarrow> nat \<Rightarrow> nat \<Rightarrow> py_error + piece list" where
  "speos_slice scatterType line_theta line_phi bsdfDataSpeos i j =
     (let nbTheta = length line_theta; nbPhi = length line_phi
      in bindE (mapE (\<lambda>x. bindE (get line_phi x) (\<lambda>currentPhi. Inr [Lit [tab], Num currentPhi]))
                  [0..<nbPhi]) (\<lambda>phis.
         bindE (mapE (\<lambda>k.
                  bindE (get line_theta k) (\<lambda>currentTheta.
                  bindE (mapE (speos_value scatterType currentTheta bsdfDataSpeos i j k) [0..<nbPhi])
                    (\<lambda>vals. Inr ([Num currentTheta] @ concat vals @ [Lit [nl]]))))
                  [0..<nbTheta]) (\<lambda>rows.
         Inr ([Lit (str_int (int nbTheta) @ '' '' @ str_int (int nbPhi) @ [nl])]
              @ concat phis @ [Lit [nl]] @ concat rows))))"

definition write_speos_data_bsdf ::
    "piece list \<Rightarrow> string \<Rightarrow> nat \<Rightarrow> nat \<Rightarrow> real list \<Rightarrow> real list \<Rightarrow> block list list
       \<Rightarrow> py_error + piece list" where
  "write_speos_data_bsdf nLines scatterType nbSampleRotation nbAngleIncidence line_theta line_phi
       bsdfDataSpeos =
     bindE (mapE (\<lambda>(i, j). speos_slice scatterType line_theta line_phi bsdfDataSpeos i j)
              (List.product [0..<nbSampleRotation] [0..<nbAngleIncidence])) (\<lambda>slices.
     Inr (nLines @ concat slices @ [Lit ''End of file'', Lit [nl]]))"

section \<open>Speos reader\<close>

text \<open>
  The reader is modelled with \<open>bool_log = 0\<close>, the value both conversions pass, so
  only its warnings are printed. \<open>input\<close> prints its prompt and returns when Enter is
  pressed; \<open>exit()\<close> raises SystemExit. A local variable that was never assigned is
  \<open>None\<close>, and reading it raises UnboundLocalError.
\<close>

definition read_speos_row :: "builtins \<Rightarrow> nat \<Rightarrow> (real \<times> real list) io" where
  "read_speos_row B nbScatterAzimuth =
     bindIO readline (\<lambda>dataLine.
     let data = split_ws dataLine
     in bindIO (liftE (bindE (get data 0) (py_float B))) (\<lambda>radial.
        bindIO (liftE (np_assign_row B nbScatterAzimuth (drop 1 data))) (\<lambda>row.
        returnIO (radial, row))))"

text \<open>
  One pass of the double loop: the TIS, the radial axis, the azimuth axis and the
  transposed block of one (block index, wavelength index) pair.
\<close>

definition read_speos_block :: "builtins \<Rightarrow> (real \<times> real list \<times> real list \<times> block) io" where
  "read_speos_block B =
     bindIO readline (\<lambda>tisLine.
     bindIO (liftE (py_float B tisLine)) (\<lambda>tis.
     bindIO readline (\<lambda>nbthetaphiLine.
     let nbthetaphi = split_on (CHR '' '') (butlast nbthetaphiLine)
     in bindIO (liftE (bindE (get nbthetaphi 0) (py_int B))) (\<lambda>nbScatterRadial.
        bindIO (liftE (bindE (get nbthetaphi 1) (py_int B))) (\<lambda>nbScatterAzimuth.
        bindIO readline (\<lambda>scatterAzimuthLine.
        let scatterAzimuthLineString = split_on tab (strip (butlast scatterAzimuthLine))
        in bindIO (liftE (mapE (py_float B) scatterAzimuthLineString)) (\<lambda>scatterAzimuth.
           bindIO (liftE (np_size nbScatterRadial)) (\<lambda>nR.
           bindIO (liftE (np_size nbScatterAzimuth)) (\<lambda>nA.
           bindIO (repeatIO nR (read_speos_row B nA)) (\<lambda>rows.
           returnIO (tis, map fst rows, scatterAzimuth, np_transpose nA (map snd rows))))))))))))"

type_synonym speos_result =
  "int \<times> nat \<times> string \<times> string \<times> nat \<times> nat \<times> real list \<times> real list
     \<times> real list list \<times> real list list \<times> real list list \<times> block list"

definition read_speos_bsdf :: "builtins \<Rightarrow> string \<Rightarrow> speos_result io" where
  "read_speos_bsdf B inputFilepath =
     (let bool_success = 1;
          input_file_extension = lower (splitext_ext inputFilepath);
          symmetry = (if has_substring ''brdf'' input_file_extension
                      then Some ''Asymmetrical'' else None)
      in bindIO readline (\<lambda>headerLine.
         let header = split_on (CHR '' '') (butlast headerLine);
             version = last header
         in bindIO (liftE (py_float B (drop 1 version))) (\<lambda>versionNumber.
            if versionNumber < 8
            then bindIO (print ''.....WARNING: The format is not supported.'') (\<lambda>_.
                 bindIO (print ''.....Open and save the file with the BSDF viewer to update the format.'') (\<lambda>_.
                 bindIO (print ''.....Press Enter to continue'') (\<lambda>_.
                 raiseIO SystemExit)))
            else
            bindIO readline (\<lambda>textorbinaryLine.
            let textorbinary = split_on tab (butlast textorbinaryLine)
            in if str_eq_int (hd textorbinary) 0
               then bindIO (print ''.....WARNING: The BSDF data cannot be read. It is not a text.'') (\<lambda>_.
                    bindIO (print ''.....Press Enter to continue'') (\<lambda>_.
                    raiseIO SystemExit))
               else
               bindIO readline (\<lambda>commentLine.
               bindIO readline (\<lambda>nbmeasurementLine.
               bindIO readline (\<lambda>measurementdescriptionLine.
               bindIO readline (\<lambda>reflectionortransmissionLine.
               let reflectionortransmission = split_on tab (butlast reflectionortransmissionLine);
                   scatterType0 = (if hd reflectionortransmission = ''1'' then Some ''BRDF'' else None)
               in bindIO (liftE (get reflectionortransmission 1)) (\<lambda>transmission.
                  let scatterType = (if transmission = ''1'' then Some ''BTDF'' else scatterType0);
                      nb_reflection_transmission =
                        (if hd reflectionortransmission = ''1'' \<and> transmission = ''1''
                         then 2 else (1 :: nat))
                  in bindIO readline (\<lambda>typeLine.
                     bindIO readline (\<lambda>nbAngleIncidenceWavelengthLine.
                     let nbAngleIncidenceWavelength =
                           split_on tab (butlast nbAngleIncidenceWavelengthLine)
                     in bindIO (liftE (bindE (get nbAngleIncidenceWavelength 0) (py_int B)))
                          (\<lambda>nbAngleIncidence.
                        bindIO (liftE (bindE (get nbAngleIncidenceWavelength 1) (py_int B)))
                          (\<lambda>nbWavelength.
                        bindIO readline (\<lambda>angleIncidenceLine.
                        bindIO (liftE (mapE (py_float B) (split_on tab (butlast angleIncidenceLine))))
                          (\<lambda>angleIncidence.
                        bindIO readline (\<lambda>wavelengthLine.
                        bindIO (liftE (mapE (py_float B) (split_on tab (butlast wavelengthLine))))
                          (\<lambda>wavelength.
                        bindIO (liftE (np_size (int nb_reflection_transmission * nbAngleIncidence)))
                          (\<lambda>nbBlocks.
                        bindIO (liftE (np_size nbWavelength)) (\<lambda>nbSampleRotation.
                        bindIO (repeatIO nbBlocks (repeatIO nbSampleRotation (read_speos_block B)))
                          (\<lambda>blocks.
                        case scatterType of
                          None \<Rightarrow> raiseIO (UnboundLocalError ''scatterType'')
                        | Some scatterTypeValue \<Rightarrow>
                        (case symmetry of
                           None \<Rightarrow> raiseIO (UnboundLocalError ''symmetry'')
                         | Some symmetryValue \<Rightarrow>
                           returnIO (bool_success, nb_reflection_transmission, scatterTypeValue,
                             symmetryValue, nbSampleRotation, nat nbAngleIncidence, angleIncidence,
                             wavelength,
                             map (\<lambda>b. fst (snd b)) (concat blocks),
                             map (\<lambda>b. fst (snd (snd b))) (concat blocks),
                             map (map fst) blocks,
                             map (\<lambda>b. snd (snd (snd b))) (concat blocks)))))))))))))))))))))))"

section \<open>Zemax reader\<close>

text \<open>
  \<open>line = readline()\<close> followed by \<open>while line[0] == "#": line = readline()\<close>:
  the next line that is no comment. At the end of the file \<open>readline\<close> returns the
  empty string, and \<open>line[0]\<close> raises IndexError.
\<close>

fun skip_comments :: "string list \<Rightarrow> (py_error + string) \<times> string list" where
  "skip_comments [] = (Inl IndexError, [])"
| "skip_comments (l # ls) =
     (if l = [] then (Inl IndexError, ls)
      else if hd l = CHR ''#'' then skip_comments ls
      else (Inr l, ls))"

definition read_uncommented :: "string io" where
  "read_uncommented s = (case skip_comments (fst s) of (r, ls) \<Rightarrow> (r, (ls, snd s)))"

text \<open>
  \<open>dataLine = readline()\<close> followed by
  \<open>while dataLine[0:9] != "DataBegin": dataLine = readline()\<close>. At the end of the file
  every further \<open>readline\<close> returns the empty string and the loop never ends: the model
  returns \<open>Hangs\<close> exactly there, so that not returning is a value of the model.
\<close>

datatype 'a outcome = Hangs | Done 'a

fun skip_to_data_begin :: "string list \<Rightarrow> string list outcome" where
  "skip_to_data_begin [] = Hangs"
| "skip_to_data_begin (l # ls) =
     (if take 9 l = ''DataBegin'' then Done ls else skip_to_data_begin ls)"

text \<open>
  The values line of a header axis: the tokens, the test of their number against the
  declared count, and the axis when they agree. When they differ the source prints the
  warning and assigns nothing, so the axis variable stays unassigned (\<open>None\<close>).
  \<open>split()\<close> yields no empty token, so \<open>while tokens[-1] == ""\<close> never runs its
  body, but \<open>tokens[-1]\<close> raises IndexError on a line without token.
\<close>

definition read_axis_values :: "builtins \<Rightarrow> string \<Rightarrow> int \<Rightarrow> real list option io" where
  "read_axis_values B warning declared =
     bindIO read_uncommented (\<lambda>valuesLine.
     let tokens = split_ws (butlast valuesLine)
     in if tokens = [] then raiseIO IndexError
        else if int (length tokens) \<noteq> declared
        then bindIO (print warning) (\<lambda>_. returnIO None)
        else bindIO (liftE (mapE (py_float B) tokens)) (\<lambda>values. returnIO (Some values)))"

text \<open>The declared count of a header axis: \<open>int(line[offset:-1])\<close>.\<close>

definition read_axis_count :: "builtins \<Rightarrow> nat \<Rightarrow> int io" where
  "read_axis_count B offset =
     bindIO read_uncommented (\<lambda>countLine. liftE (py_int B (drop offset (butlast countLine))))"

definition read_header_text :: "nat \<Rightarrow> string io" where
  "read_header_text offset =
     bindIO read_uncommented (\<lambda>textLine. returnIO (strip (drop offset (butlast textLine))))"

text \<open>One slice of the data section: the TIS line and one row per azimuth sample.\<close>

definition read_zemax_slice :: "builtins \<Rightarrow> nat \<Rightarrow> nat \<Rightarrow> (real \<times> block) io" where
  "read_zemax_slice B nbScatterAzimuth nbScatterRadial =
     bindIO readline (\<lambda>tisLine.
     bindIO (liftE (py_float B (drop 4 (butlast tisLine)))) (\<lambda>tis.
     bindIO (repeatIO nbScatterAzimuth
               (bindIO readline (\<lambda>dataLine.
                  liftE (np_assign_row B nbScatterRadial (split_ws dataLine))))) (\<lambda>rows.
     returnIO (tis, rows))))"

type_synonym zemax_result =
  "string \<times> string \<times> nat \<times> nat \<times> nat \<times> nat \<times> real list \<times> real list
     \<times> real list \<times> real list \<times> real list list \<times> block list list"

text \<open>
  \<open>read_zemax_bsdf\<close> with \<open>bool_log = 0\<close>. The result is \<open>Hangs\<close> when the search
  for \<open>DataBegin\<close> never ends; otherwise the value or exception of the reader, with the
  lines left unread and the lines printed. The \<open>return\<close> reads \<open>angleIncidence\<close>,
  \<open>sampleRotation\<close>, \<open>scatterRadial\<close> and \<open>scatterAzimuth\<close> in this order.
\<close>

definition read_zemax_data ::
    "builtins \<Rightarrow> string \<Rightarrow> string \<Rightarrow> int \<Rightarrow> int \<Rightarrow> int \<Rightarrow> int
       \<Rightarrow> real list option \<Rightarrow> real list option \<Rightarrow> real list option \<Rightarrow> real list option
       \<Rightarrow> zemax_result io" where
  "read_zemax_data B scatterType symmetry nbSampleRotation nbAngleIncidence nbScatterAzimuth
       nbScatterRadial sampleRotation angleIncidence scatterAzimuth scatterRadial =
     bindIO (liftE (np_size nbSampleRotation)) (\<lambda>nSR.
     bindIO (liftE (np_size nbAngleIncidence)) (\<lambda>nAI.
     bindIO (liftE (np_size nbScatterAzimuth)) (\<lambda>nAz.
     bindIO (liftE (np_size nbScatterRadial)) (\<lambda>nRad.
     bindIO (repeatIO nSR (repeatIO nAI (read_zemax_slice B nAz nRad))) (\<lambda>slices.
     case angleIncidence of
       None \<Rightarrow> raiseIO (UnboundLocalError ''angleIncidence'')
     | Some angleIncidenceValue \<Rightarrow>
     (case sampleRotation of
        None \<Rightarrow> raiseIO (UnboundLocalError ''sampleRotation'')
      | Some sampleRotationValue \<Rightarrow>
      (case scatterRadial of
         None \<Rightarrow> raiseIO (UnboundLocalError ''scatterRadial'')
       | Some scatterRadialValue \<Rightarrow>
       (case scatterAzimuth of
          None \<Rightarrow> raiseIO (UnboundLocalError ''scatterAzimuth'')
        | Some scatterAzimuthValue \<Rightarrow>
          returnIO (scatterType, symmetry, nSR, nAI, nAz, nRad, angleIncidenceValue,
            sampleRotationValue, scatterRadialValue, scatterAzimuthValue,
            map (map fst) slices, map (map snd) slices)))))))))"

definition read_zemax_header ::
    "builtins \<Rightarrow> (string \<times> string \<times> int \<times> int \<times> int \<times> int
        \<times> real list option \<times> real list option \<times> real list option \<times> real list option) io" where
  "read_zemax_header B =
     bindIO (read_header_text 6) (\<lambda>source.
     bindIO (read_header_text 8) (\<lambda>symmetry.
     bindIO (read_header_text 15) (\<lambda>spectralContent.
     bindIO (read_header_text 11) (\<lambda>scatterType.
     bindIO (read_axis_count B 14) (\<lambda>nbSampleRotation.
     bindIO (read_axis_values B ''.....WARNING: Wrong data for sample rotation values''
               nbSampleRotation) (\<lambda>sampleRotation.
     bindIO (read_axis_count B 16) (\<lambda>nbAngleIncidence.
     bindIO (read_axis_values B ''.....WARNING: Wrong data for angle incidence values''
               nbAngleIncidence) (\<lambda>angleIncidence.
     bindIO (read_axis_count B 14) (\<lambda>nbScatterAzimuth.
     bindIO (read_axis_values B ''.....WARNING: Wrong data for scatter azimuth values''
               nbScatterAzimuth) (\<lambda>scatterAzimuth.
     bindIO (read_axis_count B 13) (\<lambda>nbScatterRadial.
     bindIO (read_axis_values B ''.....WARNING: Wrong data for scatter radial values''
               nbScatterRadial) (\<lambda>scatterRadial.
     returnIO (scatterType, symmetry, nbSampleRotation, nbAngleIncidence, nbScatterAzimuth,
       nbScatterRadial, sampleRotation, angleIncidence, scatterAzimuth, scatterRadial)))))))))))))"

definition read_zemax_bsdf ::
    "builtins \<Rightarrow> io_state \<Rightarrow> ((py_error + zemax_result) \<times> io_state) outcome" where
  "read_zemax_bsdf B s =
     (case read_zemax_header B s of
        (Inl e, s') \<Rightarrow> Done (Inl e, s')
      | (Inr (scatterType, symmetry, nbSampleRotation, nbAngleIncidence, nbScatterAzimuth,
              nbScatterRadial, sampleRotation, angleIncidence, scatterAzimuth, scatterRadial), s') \<Rightarrow>
          (case skip_to_data_begin (fst s') of
             Hangs \<Rightarrow> Hangs
           | Done ls \<Rightarrow>
               Done (read_zemax_data B scatterType symmetry nbSampleRotation nbAngleIncidence
                       nbScatterAzimuth nbScatterRadial sampleRotation angleIncidence
                       scatterAzimuth scatterRadial (ls, snd s'))))"

section \<open>Zemax writer\<close>

text \<open>
  \<open>bsdfData\<close> is a 4-dimensional numpy array: its shape and its entries as nested
  lists. An index is checked against the size of its axis; the only index of the writer
  that can be negative is \<open>shape[2] - 1\<close>, which is \<open>-1\<close> on an axis of size 0 and
  raises IndexError there.
\<close>

type_synonym ndarray4 = "(nat \<times> nat \<times> nat \<times> nat) \<times> block list list"

definition nd_get :: "ndarray4 \<Rightarrow> nat \<Rightarrow> nat \<Rightarrow> int \<Rightarrow> nat \<Rightarrow> py_error + real" where
  "nd_get a i0 i1 l k =
     (case fst a of (s0, s1, s2, s3) \<Rightarrow>
        if i0 < s0 \<and> i1 < s1 \<and> 0 \<le> l \<and> l < int s2 \<and> k < s3
        then Inr (snd a ! i0 ! i1 ! nat l ! k)
        else Inl IndexError)"

definition zemax_row :: "ndarray4 \<Rightarrow> nat \<Rightarrow> nat \<Rightarrow> nat \<Rightarrow> py_error + piece list" where
  "zemax_row bsdfData index_angle index_wavelength k =
     (case fst bsdfData of (s0, s1, s2, s3) \<Rightarrow>
        bindE (mapE (\<lambda>l. bindE (nd_get bsdfData index_angle index_wavelength (int l) k)
                            (\<lambda>v. Inr [Sci v, Lit [tab]]))
                 [0..<s2 - 1]) (\<lambda>cells.
        bindE (nd_get bsdfData index_angle index_wavelength (int s2 - 1) k) (\<lambda>v.
        Inr (concat cells @ [Sci v, Lit [nl]]))))"

definition zemax_slice ::
    "nat \<Rightarrow> nat \<Rightarrow> nat \<Rightarrow> real list list \<Rightarrow> ndarray4 \<Rightarrow> nat \<Rightarrow> py_error + piece list" where
  "zemax_slice index_wavelength index_RT nbAngleIncidence tisData bsdfData j =
     (let index_angle = j + nbAngleIncidence * index_RT
      in bindE (get2 tisData j index_wavelength) (\<lambda>tis.
         bindE (mapE (zemax_row bsdfData index_angle index_wavelength)
                  [0..<snd (snd (snd (fst bsdfData)))]) (\<lambda>rows.
         Inr ([Lit ''TIS '', Num (py_round_nd (tis / 100) 3), Lit [nl]] @ concat rows))))"

definition write_zemax_data_bsdf ::
    "nat \<Rightarrow> nat \<Rightarrow> nat \<Rightarrow> nat \<Rightarrow> real list list \<Rightarrow> ndarray4 \<Rightarrow> py_error + piece list" where
  "write_zemax_data_bsdf index_wavelength index_RT nbSampleRotation nbAngleIncidence tisData
       bsdfData =
     bindE (mapE (\<lambda>(i, j). zemax_slice index_wavelength index_RT nbAngleIncidence tisData
                              bsdfData j)
              (List.product [0..<nbSampleRotation] [0..<nbAngleIncidence])) (\<lambda>slices.
     Inr (concat slices @ [Lit (''DataEnd'' @ [nl])]))"

section \<open>What the two data writers put into the file\<close>

text \<open>
  The data sections in closed form, for comparison with the writers: the Zemax section
  holds each stored value as it is; the Speos section holds, for BTDF, each stored value
  times \<open>cos((180 - theta) * pi / 180)\<close> for the \<open>theta\<close> of its row, and for BRDF each
  stored value as it is.
\<close>

definition zemax_data_text ::
    "nat \<Rightarrow> nat \<Rightarrow> nat \<Rightarrow> nat \<Rightarrow> real list list \<Rightarrow> ndarray4 \<Rightarrow> piece list" where
  "zemax_data_text index_wavelength index_RT nbSampleRotation nbAngleIncidence tisData bsdfData =
     (case fst bsdfData of (s0, s1, s2, s3) \<Rightarrow>
        concat (map (\<lambda>(i, j).
            [Lit ''TIS '', Num (py_round_nd (tisData ! j ! index_wavelength / 100) 3), Lit [nl]]
            @ concat (map (\<lambda>k.
                concat (map (\<lambda>l.
                    [Sci (snd bsdfData ! (j + nbAngleIncidence * index_RT) ! index_wavelength
                            ! l ! k), Lit [tab]]) [0..<s2 - 1])
                @ [Sci (snd bsdfData ! (j + nbAngleIncidence * index_RT) ! index_wavelength
                          ! (s2 - 1) ! k), Lit [nl]]) [0..<s3]))
          (List.product [0..<nbSampleRotation] [0..<nbAngleIncidence]))
        @ [Lit (''DataEnd'' @ [nl])])"

definition speos_written_value :: "string \<Rightarrow> real \<Rightarrow> real \<Rightarrow> piece list" where
  "speos_written_value scatterType theta v =
     (if scatterType = ''BRDF'' then [Lit [tab], Num v]
      else if scatterType = ''BTDF'' then [Lit [tab], Num (cos ((180 - theta) * pi / 180) * v)]
      else [])"

definition speos_data_text ::
    "piece list \<Rightarrow> string \<Rightarrow> nat \<Rightarrow> nat \<Rightarrow> real list \<Rightarrow> real list \<Rightarrow> block list list
       \<Rightarrow> piece list" where
  "speos_data_text nLines scatterType nbSampleRotation nbAngleIncidence line_theta line_phi
       bsdfDataSpeos =
     nLines
     @ concat (map (\<lambda>(i, j).
         [Lit (str_int (int (length line_theta)) @ '' '' @ str_int (int (length line_phi)) @ [nl])]
         @ concat (map (\<lambda>x. [Lit [tab], Num (line_phi ! x)]) [0..<length line_phi])
         @ [Lit [nl]]
         @ concat (map (\<lambda>k.
             [Num (line_theta ! k)]
             @ concat (map (\<lambda>phi_idx.
                 speos_written_value scatterType (line_theta ! k)
                   (bsdfDataSpeos ! i ! j ! k ! phi_idx)) [0..<length line_phi])
             @ [Lit [nl]]) [0..<length line_theta]))
       (List.product [0..<nbSampleRotation] [0..<nbAngleIncidence]))
     @ [Lit ''End of file'', Lit [nl]]"

section \<open>Basic facts about the error and reader monads\<close>

lemma bindE_Inr_iff:
  "bindE m f = Inr y \<longleftrightarrow> (\<exists>v. m = Inr v \<and> f v = Inr y)"
  by (cases m) (simp_all add: bindE_def)

lemma bindE_simps:
  "bindE (Inl e) f = Inl e"
  "bindE (Inr v) f = f v"
  "bindE (if c then Inr x else Inr y) f = f (if c then x else y)"
  by (simp_all add: bindE_def)

lemmas text_defs = nl_def tab_def split_on_def split_ws_def strip_def is_space_def
  plain_builtins_def signed_def unsigned_decimal_def unsigned_int_def is_digit_def digits_value_def
  py_float_def py_int_def get_def bindE_def np_size_def np_assign_row_def np_transpose_def
  lower_def lower_char_def splitext_ext_def str_eq_int_def

lemmas io_defs = bindIO_def returnIO_def raiseIO_def liftE_def readline_def print_def


lemma py_round_err: "\<bar>of_int (py_round x) - x\<bar> \<le> 1 / 2"
proof -
  have "of_int \<lfloor>x\<rfloor> \<le> x" "x < of_int \<lfloor>x\<rfloor> + 1" by linarith+
  then show ?thesis by (auto simp: py_round_def Let_def)
qed


section \<open>Properties of the binary search\<close>

lemma bisect_loop_spec:
  assumes "sorted a" "lo \<le> hi" "hi \<le> length a"
    and "\<forall>i<lo. a ! i < x"
    and "\<forall>i. hi \<le> i \<and> i < length a \<longrightarrow> x \<le> a ! i"
  shows "lo \<le> bisect_loop a x lo hi \<and> bisect_loop a x lo hi \<le> hi
       \<and> (\<forall>i<bisect_loop a x lo hi. a ! i < x)
       \<and> (\<forall>i. bisect_loop a x lo hi \<le> i \<and> i < length a \<longrightarrow> x \<le> a ! i)"
  using assms
proof (induction a x lo hi rule: bisect_loop.induct)
  case (1 a x lo hi)
  show ?case
  proof (cases "lo < hi")
    case False
    with "1.prems" show ?thesis by (simp add: bisect_loop.simps)
  next
    case True
    define mid where "mid = (lo + hi) div 2"
    have mid: "lo \<le> mid" "mid < hi" using True by (simp_all add: mid_def)
    show ?thesis
    proof (cases "a ! mid < x")
      case lt: True
      have below: "\<forall>i<mid + 1. a ! i < x"
      proof (intro allI impI)
        fix i assume "i < mid + 1"
        then have "i \<le> mid" by simp
        with \<open>sorted a\<close> mid "1.prems"(3) have "a ! i \<le> a ! mid"
          by (simp add: sorted_nth_mono)
        with lt show "a ! i < x" by simp
      qed
      have eq: "bisect_loop a x lo hi = bisect_loop a x (mid + 1) hi"
        using True lt by (subst bisect_loop.simps) (simp add: mid_def Let_def)
      have "mid + 1 \<le> bisect_loop a x (mid + 1) hi \<and> bisect_loop a x (mid + 1) hi \<le> hi
         \<and> (\<forall>i<bisect_loop a x (mid + 1) hi. a ! i < x)
         \<and> (\<forall>i. bisect_loop a x (mid + 1) hi \<le> i \<and> i < length a \<longrightarrow> x \<le> a ! i)"
        using "1.IH"(1) [OF True mid_def lt \<open>sorted a\<close> _ "1.prems"(3) below "1.prems"(5)] mid
        by simp
      with eq mid show ?thesis by simp
    next
      case ge: False
      have above: "\<forall>i. mid \<le> i \<and> i < length a \<longrightarrow> x \<le> a ! i"
      proof (intro allI impI)
        fix i assume "mid \<le> i \<and> i < length a"
        with \<open>sorted a\<close> have "a ! mid \<le> a ! i"
          by (simp add: sorted_nth_mono)
        with ge show "x \<le> a ! i" by simp
      qed
      have eq: "bisect_loop a x lo hi = bisect_loop a x lo mid"
        using True ge by (subst bisect_loop.simps) (simp add: mid_def Let_def)
      have "lo \<le> bisect_loop a x lo mid \<and> bisect_loop a x lo mid \<le> mid
         \<and> (\<forall>i<bisect_loop a x lo mid. a ! i < x)
         \<and> (\<forall>i. bisect_loop a x lo mid \<le> i \<and> i < length a \<longrightarrow> x \<le> a ! i)"
        using "1.IH"(2) [OF True mid_def ge \<open>sorted a\<close> mid(1) _ "1.prems"(4) above] mid "1.prems"(3)
        by simp
      with eq mid show ?thesis by simp
    qed
  qed
qed

lemma bisect_left_spec:
  assumes "sorted a"
  shows "bisect_left a x \<le> length a"
    and "\<forall>i<bisect_left a x. a ! i < x"
    and "\<forall>i. bisect_left a x \<le> i \<and> i < length a \<longrightarrow> x \<le> a ! i"
  using bisect_loop_spec [OF assms, of 0 "length a" x] by (simp_all add: bisect_left_def)

lemma bisect_left_at_sample:
  assumes "sorted_wrt (<) a" "m < length a"
  shows "bisect_left a (a ! m) = m"
proof -
  have s: "sorted a" using assms(1) by (simp add: strict_sorted_imp_sorted)
  let ?r = "bisect_left a (a ! m)"
  have "\<not> ?r < m"
  proof
    assume lt: "?r < m"
    then have "a ! ?r < a ! m" using assms by (simp add: sorted_wrt_nth_less)
    moreover have "a ! m \<le> a ! ?r" using bisect_left_spec(3) [OF s, of "a ! m"] lt assms(2) by simp
    ultimately show False by simp
  qed
  moreover have "\<not> m < ?r"
    using bisect_left_spec(2) [OF s, of "a ! m"] by auto
  ultimately show ?thesis by simp
qed

section \<open>Properties of the resampler\<close>

lemma bracket_theta_at_sample:
  assumes "sorted_wrt (<) a" "m < length a"
  shows "bracket_theta np a (a ! m) = Inr (if m = 0 then (0, 0, 0) else (m - 1, m, 1))"
proof (cases "m = 0")
  case True
  then show ?thesis using assms by (simp add: bracket_theta_def bisect_left_at_sample)
next
  case False
  then have "a ! (m - 1) < a ! m" using assms by (simp add: sorted_wrt_nth_less)
  then show ?thesis using False assms
    by (simp add: bracket_theta_def bisect_left_at_sample bindE_def get_def py_div_def np_div_def Let_def)
qed

lemma bracket_phi_at_sample:
  assumes "sorted_wrt (<) a" "m < length a"
  shows "bracket_phi a (a ! m) = Inr (if m = 0 then (0, 0, 0) else (m - 1, m, 1))"
proof (cases "m = 0")
  case True
  then show ?thesis using assms by (simp add: bracket_phi_def bisect_left_at_sample)
next
  case False
  then have "a ! (m - 1) < a ! m" using assms by (simp add: sorted_wrt_nth_less)
  then show ?thesis using False assms
    by (simp add: bracket_phi_def bisect_left_at_sample bindE_def get_def py_div_def Let_def)
qed

lemma block_at_rect:
  assumes "length b = n" "\<forall>row\<in>set b. length row = m" "p < n" "t < m"
  shows "block_at b p t = Inr (b ! p ! t)"
  using assms by (simp add: block_at_def bindE_def get_def)

lemma interpolate_cell_at_sample:
  assumes "source_radial src index = Inr scatterRadial"
    and "source_azimuth src index = Inr scatterAzimuth"
    and "source_block src i j index = Inr b"
    and "sorted_wrt (<) scatterRadial" "sorted_wrt (<) scatterAzimuth"
    and "length b = length scatterAzimuth"
    and "\<forall>row\<in>set b. length row = length scatterRadial"
    and "t < length scatterRadial" "p < length scatterAzimuth"
  shows "interpolate_cell src i j index (scatterRadial ! t) (scatterAzimuth ! p) = Inr (b ! p ! t)"
proof -
  have at: "\<And>p' t'. p' < length scatterAzimuth \<Longrightarrow> t' < length scatterRadial
      \<Longrightarrow> block_at b p' t' = Inr (b ! p' ! t')"
    using block_at_rect [OF assms(6) assms(7)] by simp
  have t: "t - Suc 0 < length scatterRadial" "0 < length scatterRadial"
    and p: "p - Suc 0 < length scatterAzimuth" "0 < length scatterAzimuth"
    using assms(8,9) by auto
  show ?thesis
    by (simp add: interpolate_cell_def assms(1,2,3) bindE_def
        bracket_theta_at_sample [OF assms(4) assms(8)]
        bracket_phi_at_sample [OF assms(5) assms(9)] at [OF assms(9) assms(8)]
        at [OF p(1) t(1)] at [OF p(1) assms(8)] at [OF assms(9) t(1)]
        at [OF p(2) t(2)] at [OF p(2) assms(8)] at [OF assms(9) t(2)]
        at [OF p(2) t(1)] at [OF p(1) t(2)] blend_def)
qed

lemma weight_in_unit:
  fixes x lo hi :: real
  assumes "lo < x" "x \<le> hi"
  shows "0 \<le> (x - lo) / (hi - lo) \<and> (x - lo) / (hi - lo) \<le> 1"
  using assms by (simp add: divide_le_eq)

lemma bracket_theta_range:
  assumes "sorted_wrt (<) a" "a \<noteq> []"
  shows "\<exists>inf sup c. bracket_theta np a x = Inr (inf, sup, c)
           \<and> inf < length a \<and> sup < length a \<and> 0 \<le> c \<and> c \<le> 1"
proof -
  have s: "sorted a" using assms(1) by (simp add: strict_sorted_imp_sorted)
  define r where "r = bisect_left a x"
  note spec = bisect_left_spec [OF s, of x, folded r_def]
  consider "r = 0" | "0 < r" "r < length a" | "r = length a" "0 < r"
    using spec(1) by (cases "r = 0"; cases "r = length a") auto
  then show ?thesis
  proof cases
    case 1
    then show ?thesis using assms(2) by (simp add: bracket_theta_def r_def [symmetric])
  next
    case 2
    have lo: "a ! (r - 1) < x" using spec(2) 2 by simp
    have hi: "x \<le> a ! r" using spec(3) 2 by simp
    from lo hi have ne: "a ! r - a ! (r - 1) \<noteq> 0" by simp
    have w: "0 \<le> (x - a ! (r - 1)) / (a ! r - a ! (r - 1))
           \<and> (x - a ! (r - 1)) / (a ! r - a ! (r - 1)) \<le> 1"
      by (rule weight_in_unit [OF lo hi])
    show ?thesis using 2 ne w
      by (simp add: bracket_theta_def r_def [symmetric] bindE_def get_def py_div_def np_div_def Let_def)
  next
    case 3
    then show ?thesis
      by (simp add: bracket_theta_def r_def [symmetric] Let_def)
  qed
qed






text \<open>
  C7. When the source coordinates of a target cell are exactly a grid point of the source
  (the radial coordinate is the sample \<open>t\<close> of a strictly increasing radial axis, the
  folded azimuth the sample \<open>p\<close> of a strictly increasing azimuth axis), the bilinear
  interpolation returns the stored value \<open>b[p][t]\<close>, each bracket weight being 0 or 1;
  and so does the whole cell when the direction is reachable (radial coordinate in
  \<open>[0, 90]\<close>).
\<close>

theorem interpolation_reproduces_grid_point:
  assumes "source_radial src index = Inr scatterRadial"
    and "source_azimuth src index = Inr scatterAzimuth"
    and "source_block src i j index = Inr b"
    and "sorted_wrt (<) scatterRadial" and "sorted_wrt (<) scatterAzimuth"
    and "length b = length scatterAzimuth"
    and "\<forall>row\<in>set b. length row = length scatterRadial"
    and "t < length scatterRadial" and "p < length scatterAzimuth"
    and "newTheta = scatterRadial ! t" and "newPhi = scatterAzimuth ! p"
  shows "interpolate_cell src i j index newTheta newPhi = Inr (b ! p ! t)
       \<and> (\<exists>indexInfTheta indexSupTheta coeffTheta indexInfPhi indexSupPhi coeffPhi.
             bracket_theta (is_speos src) scatterRadial newTheta
               = Inr (indexInfTheta, indexSupTheta, coeffTheta)
           \<and> bracket_phi scatterAzimuth newPhi = Inr (indexInfPhi, indexSupPhi, coeffPhi)
           \<and> (coeffTheta = 0 \<or> coeffTheta = 1) \<and> (coeffPhi = 0 \<or> coeffPhi = 1))
       \<and> (source_coordinates src currentSampleRot currentAngleInc currentTheta currentPhi
             = Inr (newTheta, phi0)
           \<and> fold_phi symmetry phi0 = newPhi \<and> 0 \<le> newTheta \<and> newTheta \<le> 90
          \<longrightarrow> resample_cell symmetry src i j index currentSampleRot currentAngleInc
                currentTheta currentPhi = Inr (b ! p ! t))"
proof -
  have v: "interpolate_cell src i j index newTheta newPhi = Inr (b ! p ! t)"
    unfolding assms(10,11) by (rule interpolate_cell_at_sample [OF assms(1-9)])
  have w: "\<exists>indexInfTheta indexSupTheta coeffTheta indexInfPhi indexSupPhi coeffPhi.
             bracket_theta (is_speos src) scatterRadial newTheta
               = Inr (indexInfTheta, indexSupTheta, coeffTheta)
           \<and> bracket_phi scatterAzimuth newPhi = Inr (indexInfPhi, indexSupPhi, coeffPhi)
           \<and> (coeffTheta = 0 \<or> coeffTheta = 1) \<and> (coeffPhi = 0 \<or> coeffPhi = 1)"
    unfolding assms(10,11)
    by (simp add: bracket_theta_at_sample [OF assms(4) assms(8)]
        bracket_phi_at_sample [OF assms(5) assms(9)])
  have c: "resample_cell symmetry src i j index currentSampleRot currentAngleInc
             currentTheta currentPhi = Inr (b ! p ! t)"
    if "source_coordinates src currentSampleRot currentAngleInc currentTheta currentPhi
          = Inr (newTheta, phi0)"
      and "fold_phi symmetry phi0 = newPhi" and "0 \<le> newTheta" and "newTheta \<le> 90"
    using that v by (simp add: resample_cell_def bindE_def)
  from v w c show ?thesis by blast
qed

theorem interpolation_reproduces_grid_point_witness:
  "interpolate_cell (ZemaxSource [0, 90] [0, 180, 360] [[ [[1, 2], [3, 4], [5, 6]] ]])
      0 0 0 0 180 = Inr 3
   \<and> resample_cell ''Asymmetrical''
       (ZemaxSource [0, 90] [0, 180, 360] [[ [[1, 2], [3, 4], [5, 6]] ]]) 0 0 0 0 0 0 0 = Inr 3"
proof -
  let ?b = "[[1, 2], [3, 4], [5, 6 :: real]]"
  let ?src = "ZemaxSource [0, 90] [0, 180, 360] [[?b]]"
  have h1: "source_radial ?src 0 = Inr [0, 90]" by (simp add: source_radial_def)
  have h2: "source_azimuth ?src 0 = Inr [0, 180, 360]" by (simp add: source_azimuth_def)
  have h3: "source_block ?src 0 0 0 = Inr ?b" by (simp add: source_block_def bindE_def get_def)
  have h4: "sorted_wrt (<) [0, 90 :: real]" by simp
  have h5: "sorted_wrt (<) [0, 180, 360 :: real]" by simp
  have h6: "length ?b = length [0, 180, 360 :: real]" by simp
  have h7: "\<forall>row\<in>set ?b. length row = length [0, 90 :: real]" by simp
  have h8: "(0::nat) < length [0, 90 :: real]" by simp
  have h9: "(1::nat) < length [0, 180, 360 :: real]" by simp
  have h10: "(0::real) = [0, 90] ! 0" by simp
  have h11: "(180::real) = [0, 180, 360] ! 1" by simp
  have co: "source_coordinates ?src 0 0 0 0 = Inr (0, 180)"
    by (simp add: source_coordinates_def is_speos_def convert_normal_to_specular_using_cartesian_def
        normalize_xyz_def bindE_def py_acos_def)
  have fo: "fold_phi ''Asymmetrical'' 180 = 180" by (simp add: fold_phi_def)
  from interpolation_reproduces_grid_point [OF h1 h2 h3 h4 h5 h6 h7 h8 h9 h10 h11,
      where currentSampleRot = 0 and currentAngleInc = 0 and currentTheta = 0
        and currentPhi = 0 and ?phi0.0 = 180 and symmetry = "''Asymmetrical''"] co fo
  show ?thesis by simp
qed



text \<open>
  What the two last branches do when the search returns an index past the last one: on
  the radial axis both brackets are the last index; on the azimuth axis the upper bracket
  is one past it, and the lookup in a block as long as the axis raises IndexError.
\<close>

lemma bisect_left_past_last:
  assumes "sorted a" "a \<noteq> []" "last a < x"
  shows "bisect_left a x = length a"
proof (rule ccontr)
  assume "bisect_left a x \<noteq> length a"
  with bisect_left_spec(1) [OF assms(1), of x] have "bisect_left a x \<le> length a - 1"
    by simp
  with bisect_left_spec(3) [OF assms(1), of x] assms(2) have "x \<le> a ! (length a - 1)"
    by simp
  with assms(2,3) show False by (simp add: last_conv_nth)
qed

lemma bracket_theta_past_last:
  assumes "sorted a" "a \<noteq> []" "last a < x"
  shows "bracket_theta np a x = Inr (length a - 1, length a - 1, 0)"
  using assms(2) by (simp add: bracket_theta_def bisect_left_past_last [OF assms] Let_def)

lemma bracket_phi_past_last:
  assumes "sorted a" "a \<noteq> []" "last a < x"
  shows "bracket_phi a x = Inr (length a - 1, length a, 0)"
  using assms(2) by (simp add: bracket_phi_def bisect_left_past_last [OF assms] Let_def)

lemma interpolate_cell_past_last_azimuth:
  assumes "source_radial src index = Inr scatterRadial"
    and "source_azimuth src index = Inr scatterAzimuth"
    and "source_block src i j index = Inr b"
    and "sorted_wrt (<) scatterRadial" "sorted scatterAzimuth"
    and "scatterRadial \<noteq> []" "scatterAzimuth \<noteq> []"
    and "length b = length scatterAzimuth"
    and "\<forall>row\<in>set b. length row = length scatterRadial"
    and "last scatterAzimuth < newPhi"
  shows "interpolate_cell src i j index newTheta newPhi = Inl IndexError"
proof -
  obtain it st ct where th: "bracket_theta (is_speos src) scatterRadial newTheta = Inr (it, st, ct)"
      "it < length scatterRadial" "st < length scatterRadial"
    using bracket_theta_range [OF assms(4) assms(6)] by blast
  note at = block_at_rect [OF assms(8) assms(9)]
  have l: "length scatterAzimuth - Suc 0 < length scatterAzimuth" using assms(7) by simp
  have out: "block_at b (length scatterAzimuth) it = Inl IndexError"
    by (simp add: block_at_def get_def bindE_def assms(8))
  show ?thesis
    by (simp add: interpolate_cell_def assms(1,2,3) bindE_def th(1)
        bracket_phi_past_last [OF assms(5) assms(7) assms(10)]
        at [OF l th(2)] at [OF l th(3)] out)
qed

text \<open>
  C1. The claim is that a search result past the last index collapses both brackets to the
  last index on either axis, so that no corner lookup leaves the block. On the radial
  axis it does (first conjunct). On the azimuth axis the source sets
  \<open>indexSupPhi = indexInfPhi + 1\<close>: with the azimuth axis \<open>[0, 90, 180]\<close> and the
  source azimuth 270 the brackets are \<open>(2, 3)\<close>, and the cell (target direction
  \<open>(90, 90)\<close> at incidence 0, symmetry not PlaneSymmetrical) raises IndexError.
\<close>

theorem azimuth_upper_edge_reads_past_block:
  "bracket_theta False [0, 45] 90 = Inr (1, 1, 0)
   \<and> bracket_phi [0, 90, 180] 270 = Inr (2, 3, 0)
   \<and> interpolate_cell (ZemaxSource [0, 90] [0, 90, 180] [[ [[1, 1], [1, 1], [1, 1]] ]])
        0 0 0 90 270 = Inl IndexError
   \<and> resample_cell ''Asymmetrical''
        (ZemaxSource [0, 90] [0, 90, 180] [[ [[1, 1], [1, 1], [1, 1]] ]]) 0 0 0 0 0 90 90
        = Inl IndexError"
proof -
  have co: "convert_normal_to_specular_using_cartesian 90 90 0 = Inr (90, 270)"
    by (simp add: convert_normal_to_specular_using_cartesian_def normalize_xyz_def bindE_def
        py_acos_def)
  have ic: "interpolate_cell (ZemaxSource [0, 90] [0, 90, 180] [[ [[1, 1], [1, 1], [1, 1]] ]])
        0 0 0 90 270 = Inl IndexError"
    by (simp add: interpolate_cell_def source_radial_def source_azimuth_def source_block_def
        is_speos_def bracket_theta_def bracket_phi_def bisect_left_def bisect_loop.simps
        bindE_def get_def block_at_def py_div_def)
  have bt: "bracket_theta False [0, 45] 90 = Inr (1, 1, 0)"
    by (simp add: bracket_theta_def bisect_left_def bisect_loop.simps)
  have bp: "bracket_phi [0, 90, 180] 270 = Inr (2, 3, 0)"
    by (simp add: bracket_phi_def bisect_left_def bisect_loop.simps)
  have rc: "resample_cell ''Asymmetrical''
        (ZemaxSource [0, 90] [0, 90, 180] [[ [[1, 1], [1, 1], [1, 1]] ]]) 0 0 0 0 0 90 90
        = Inl IndexError"
    by (simp add: resample_cell_def source_coordinates_def is_speos_def co bindE_def fold_phi_def ic)
  from bt bp ic rc show ?thesis by simp
qed

section \<open>Properties of the precision resolution\<close>

lemma py_round_fifth:
  "\<bar>of_int (py_round (of_int k / 5)) - of_int k / 5\<bar> \<le> (2 / 5 :: real)"
proof -
  define r where "r = py_round (of_int k / 5)"
  have "\<bar>of_int r - of_int k / 5\<bar> \<le> (1 / 2 :: real)"
    unfolding r_def by (rule py_round_err)
  then have b: "- (1 / 2) \<le> of_int r - of_int k / (5 :: real)"
      "of_int r - of_int k / 5 \<le> (1 / 2 :: real)"
    by linarith+
  have "real_of_int (5 * r - k) < real_of_int 3" using b by simp
  then have up: "5 * r - k \<le> 2" by linarith
  have "real_of_int (- 3) < real_of_int (5 * r - k)" using b by simp
  then have lo: "- 2 \<le> 5 * r - k" by linarith
  have "real_of_int (5 * r - k) \<le> real_of_int 2" using up by (simp only: of_int_le_iff)
  then have u: "5 * real_of_int r - real_of_int k \<le> 2" by simp
  have "real_of_int (- 2) \<le> real_of_int (5 * r - k)" using lo by (simp only: of_int_le_iff)
  then have l: "- 2 \<le> 5 * real_of_int r - real_of_int k" by simp
  from u l show ?thesis unfolding r_def [symmetric] by linarith
qed

lemma two_stage_rounding:
  fixes q :: real
  defines "p \<equiv> py_round_nd q 1"
  shows "\<bar>of_int (py_round (p / (1 / 2))) / 2 - q\<bar> \<le> 1 / 4"
proof -
  define k where "k = py_round (q * 10 ^ 1)"
  have p: "p = of_int k / 10" by (simp add: p_def py_round_nd_def k_def)
  have e1: "\<bar>of_int k - q * 10\<bar> \<le> (1 / 2 :: real)"
    using py_round_err [of "q * 10 ^ 1"] by (simp add: k_def)
  have heq: "p / (1 / 2) = of_int k / 5" by (simp add: p)
  have e2: "\<bar>of_int (py_round (p / (1 / 2))) - of_int k / 5\<bar> \<le> (2 / 5 :: real)"
    unfolding heq by (rule py_round_fifth)
  from e1 e2 show ?thesis by linarith
qed

lemma nearest_multiple_half:
  fixes q :: real
  assumes "\<bar>of_int k / 2 - q\<bar> \<le> 1 / 4"
  shows "nearest_multiple (1 / 2) q (of_int k / 2)"
  unfolding nearest_multiple_def
proof (intro conjI allI)
  show "\<exists>k'::int. real_of_int k / 2 = 1 / 2 * real_of_int k'" by (rule exI [of _ k]) simp
next
  fix j :: int
  show "\<bar>real_of_int k / 2 - q\<bar> \<le> \<bar>1 / 2 * real_of_int j - q\<bar>"
  proof (cases "j = k")
    case True
    then show ?thesis by simp
  next
    case False
    then have "j \<le> k - 1 \<or> k + 1 \<le> j" by linarith
    then have "real_of_int j \<le> real_of_int k - 1 \<or> real_of_int k + 1 \<le> real_of_int j"
      by (metis of_int_1 of_int_add of_int_diff of_int_le_iff)
    with assms show ?thesis by (auto simp: abs_le_iff abs_if split: if_splits)
  qed
qed


lemma round_to_multiple_half:
  "round_to_multiple p (1 / 2) = Inr (of_int (py_round (p / (1 / 2))) / 2)"
  by (simp add: round_to_multiple_def py_div_def bindE_def)

lemma py_div_len:
  "py_div x (real_of_int (int n)) = (if n = 0 then Inl ZeroDivisionError else Inr (x / real n))"
  "py_div x (real_of_int (int n - 1))
     = (if n = 1 then Inl ZeroDivisionError else Inr (x / (real n - 1)))"
  "py_div x (real_of_int (1000 - 1)) = Inr (x / 999)"
  "py_div x (real_of_int ((if b then 500 else 1000) - 1)) = Inr (x / (if b then 499 else 999))"
  by (auto simp: py_div_def)

lemma recommended_precision_unfold:
  "phi_theta_recommended_precision scatterRadial scatterAzimuth symmetry =
     (if length scatterRadial \<le> 1 \<or> length scatterAzimuth \<le> 1 then Inl ZeroDivisionError
      else Inr
        (of_int (py_round (py_round_nd
            (if 1000 < length scatterRadial then 90 / 999
             else 90 / (real (length scatterRadial) - 1)) 1 / (1 / 2))) / 2,
         of_int (py_round (py_round_nd
            (if 1000 < length scatterAzimuth
             then (if symmetry = ''PlaneSymmetrical'' then 180 else 360)
                    / (if symmetry = ''PlaneSymmetrical'' then 499 else 999)
             else (if symmetry = ''PlaneSymmetrical'' then 180 else 360)
                    / (real (length scatterAzimuth) - 1)) 1 / (1 / 2))) / 2))"
proof -
  consider (r0) "length scatterRadial = 0" | (r1) "length scatterRadial = 1"
    | (a0) "2 \<le> length scatterRadial" "length scatterAzimuth = 0"
    | (a1) "2 \<le> length scatterRadial" "length scatterAzimuth = 1"
    | (ok) "2 \<le> length scatterRadial" "2 \<le> length scatterAzimuth"
    by linarith
  then show ?thesis
  proof cases
    case r0
    then show ?thesis
      unfolding phi_theta_recommended_precision_def Let_def py_div_len
      by (simp add: bindE_simps)
  next
    case r1
    then show ?thesis
      unfolding phi_theta_recommended_precision_def Let_def py_div_len
      by (simp add: bindE_simps)
  next
    case a0
    then have "length scatterRadial \<noteq> 0" "length scatterRadial \<noteq> 1" by auto
    with a0 show ?thesis
      unfolding phi_theta_recommended_precision_def Let_def py_div_len
      by (simp add: bindE_simps round_to_multiple_half)
  next
    case a1
    then have "length scatterRadial \<noteq> 0" "length scatterRadial \<noteq> 1" by auto
    with a1 show ?thesis
      unfolding phi_theta_recommended_precision_def Let_def py_div_len
      by (simp add: bindE_simps round_to_multiple_half)
  next
    case ok
    then have ne: "length scatterRadial \<noteq> 0" "length scatterRadial \<noteq> 1"
        "length scatterAzimuth \<noteq> 0" "length scatterAzimuth \<noteq> 1"
        "\<not> length scatterRadial \<le> 1" "\<not> length scatterAzimuth \<le> 1"
      by auto
    show ?thesis
      unfolding phi_theta_recommended_precision_def Let_def py_div_len
      using ne by (simp add: bindE_simps round_to_multiple_half)
  qed
qed

text \<open>
  C8. With PlaneSymmetrical symmetry and an azimuth axis of at most 1000 samples, the
  \<open>precisionPhi\<close> the routine returns is a nearest multiple of 0.5 to
  \<open>180 / (len(scatterAzimuth) - 1)\<close>; and with a radial axis of 181 samples the
  \<open>precisionTheta\<close> it returns is a nearest multiple of 0.5 to \<open>90 / 180\<close>.
  (By \<open>recommended_precision_unfold\<close> the routine returns exactly when both axes
  have at least two samples, and raises ZeroDivisionError otherwise.)
\<close>

theorem recommended_precision_is_nearest_half_degree_multiple:
  assumes "phi_theta_recommended_precision scatterRadial scatterAzimuth ''PlaneSymmetrical''
             = Inr (precisionTheta, precisionPhi)"
    and "length scatterAzimuth \<le> 1000"
  shows "nearest_multiple (1 / 2) (180 / (real (length scatterAzimuth) - 1)) precisionPhi
       \<and> (length scatterRadial = 181 \<longrightarrow> nearest_multiple (1 / 2) (90 / 180) precisionTheta)"
proof -
  have ok: "\<not> (length scatterRadial \<le> 1 \<or> length scatterAzimuth \<le> 1)"
    using assms(1) unfolding recommended_precision_unfold by (auto split: if_splits)
  have phi: "precisionPhi = of_int (py_round (py_round_nd
            (180 / (real (length scatterAzimuth) - 1)) 1 / (1 / 2))) / 2"
    using assms unfolding recommended_precision_unfold by (simp add: ok split: if_splits)
  have phi_ok: "nearest_multiple (1 / 2) (180 / (real (length scatterAzimuth) - 1)) precisionPhi"
    unfolding phi by (rule nearest_multiple_half [OF two_stage_rounding])
  have theta_ok: "nearest_multiple (1 / 2) (90 / 180) precisionTheta"
    if l: "length scatterRadial = 181"
  proof -
    have "precisionTheta = of_int (py_round (py_round_nd (90 / (181 - 1)) 1 / (1 / 2))) / 2"
      using assms(1) unfolding recommended_precision_unfold by (simp add: l split: if_splits)
    moreover have "(90 / (181 - 1) :: real) = 90 / 180" by simp
    ultimately have "precisionTheta = of_int (py_round (py_round_nd (90 / 180) 1 / (1 / 2))) / 2"
      by (simp only:)
    then show ?thesis by (simp only: nearest_multiple_half [OF two_stage_rounding])
  qed
  from phi_ok theta_ok show ?thesis by blast
qed

theorem recommended_precision_is_nearest_half_degree_multiple_witness:
  "phi_theta_recommended_precision (map real [0..<181]) [0, 90, 180] ''PlaneSymmetrical''
     = Inr (1 / 2, 90)
   \<and> nearest_multiple (1 / 2) (180 / (real (length [0, 90, 180 :: real]) - 1)) 90
   \<and> nearest_multiple (1 / 2) (90 / 180) (1 / 2)"
proof -
  have h1: "phi_theta_recommended_precision (map real [0..<181]) [0, 90, 180] ''PlaneSymmetrical''
     = Inr (1 / 2, 90)"
    unfolding recommended_precision_unfold
    by (simp add: py_round_nd_def py_round_def)
  have h2: "length [0, 90, 180 :: real] \<le> 1000" by simp
  have h3: "length (map real [0..<181]) = 181" by simp
  from recommended_precision_is_nearest_half_degree_multiple [OF h1 h2] h1 h3
  show ?thesis by blast
qed


section \<open>Properties of the normalizer\<close>

lemma get2_set2_same:
  assumes "get2 a i j = Inr x"
  shows "get2 (set2 a i j v) i j = Inr v"
  using assms by (auto simp: get2_def set2_def get_def bindE_def split: if_splits)

text \<open>
  What one pass of the loop body does to the block of its slice: with a positive
  integral every value is multiplied by \<open>TIS / integral\<close>; otherwise every value is
  multiplied by the entry of \<open>normalizationBsdf\<close> the branch left untouched, which is
  the 0 the array was created with.
\<close>

lemma normalize_slice_factor:
  assumes "normalize_slice quad line_theta line_phi tisData bool_zemax0_speos1 bool_log i j
             (normalizationBsdf, bsdfData) = Inr (normalizationBsdf', bsdfData')"
  shows "\<exists>slice r.
           get2 bsdfData i j = Inr slice
         \<and> slice_integral quad line_theta line_phi bool_zemax0_speos1 slice = Inr r
         \<and> (if 0 < \<bar>fst r\<bar>
             then \<exists>tis. get2 tisData i j = Inr tis
                    \<and> get2 bsdfData' i j = Inr (map (map (\<lambda>v. v * (tis / \<bar>fst r\<bar>))) slice)
             else \<exists>old. get2 normalizationBsdf i j = Inr old
                    \<and> get2 bsdfData' i j = Inr (map (map (\<lambda>v. v * old)) slice))"
proof -
  from assms obtain slice where s: "get2 bsdfData i j = Inr slice"
    by (auto simp: normalize_slice_def Let_def bindE_Inr_iff)
  from assms s obtain r where q: "slice_integral quad line_theta line_phi bool_zemax0_speos1 slice = Inr r"
    by (auto simp: normalize_slice_def Let_def bindE_Inr_iff)
  define nb where "nb = (if 0 < \<bar>fst r\<bar>
             then bindE (get2 tisData i j) (\<lambda>tis.
                    Inr (set2 normalizationBsdf i j (tis / \<bar>fst r\<bar>)))
             else Inr normalizationBsdf)"
  from assms s q obtain nb' factor where
    n: "nb = Inr nb'"
    and f: "get2 nb' i j = Inr factor"
    and d: "bsdfData' = set2 bsdfData i j (map (map (\<lambda>v. v * factor)) slice)"
    unfolding nb_def by (auto simp: normalize_slice_def Let_def bindE_Inr_iff)
  have out: "get2 bsdfData' i j = Inr (map (map (\<lambda>v. v * factor)) slice)"
    unfolding d by (rule get2_set2_same [OF s])
  show ?thesis
  proof (cases "0 < \<bar>fst r\<bar>")
    case True
    with n obtain tis where t: "get2 tisData i j = Inr tis"
      and nb: "nb' = set2 normalizationBsdf i j (tis / \<bar>fst r\<bar>)"
      unfolding nb_def by (auto simp: bindE_Inr_iff)
    from f have "get2 normalizationBsdf i j \<noteq> Inl IndexError"
      unfolding nb by (auto simp: get2_def set2_def get_def bindE_def split: if_splits)
    then obtain old where "get2 normalizationBsdf i j = Inr old"
      by (auto simp: get2_def get_def bindE_def split: if_splits)
    then have "get2 nb' i j = Inr (tis / \<bar>fst r\<bar>)"
      unfolding nb by (rule get2_set2_same)
    with f have "factor = tis / \<bar>fst r\<bar>" by simp
    with t out have "\<exists>tis. get2 tisData i j = Inr tis
        \<and> get2 bsdfData' i j = Inr (map (map (\<lambda>v. v * (tis / \<bar>fst r\<bar>))) slice)"
      by blast
    with s q True show ?thesis
      by (intro exI [of _ slice] exI [of _ r]) (simp only: if_True simp_thms)
  next
    case False
    with n have "nb' = normalizationBsdf" unfolding nb_def by simp
    with f out have "\<exists>old. get2 normalizationBsdf i j = Inr old
        \<and> get2 bsdfData' i j = Inr (map (map (\<lambda>v. v * old)) slice)"
      by blast
    with s q False show ?thesis
      by (intro exI [of _ slice] exI [of _ r]) (simp only: if_False simp_thms)
  qed
qed

text \<open>
  C2. The claim is that a slice whose integral is not positive keeps its values. The
  slice below is 1 at \<open>theta = 0\<close> and 0 elsewhere, so its integrand
  \<open>value * sin theta * cos theta / pi\<close> is 0 at every sample and its integral is 0; the
  normalizer returns the factor 0 and a block of zeros, not the block it was given.
\<close>

theorem zero_integral_slice_is_zeroed:
  "normalize_bsdf_data trapezoid_quadrature 1 1 [0, 45, 90] [0, 180, 360] [[1 / 2]]
     [[ [[1, 1, 1], [0, 0, 0], [0, 0, 0]] ]] True False
   = Inr ([[0]], [[ [[0, 0, 0], [0, 0, 0], [0, 0, 0]] ]])"
proof -
  have tr: "transpose [[1, 1, 1], [0, 0, 0], [0, 0, 0 :: real]] = [[1, 0, 0], [1, 0, 0], [1, 0, 0]]"
    by code_simp
  show ?thesis
    by (simp add: normalize_bsdf_data_def normalize_slice_def slice_integral_def get2_def set2_def
        get_def bindE_def tr integrande_row_def py_min_def py_max_def trapezoid_quadrature_def Let_def)
qed

section \<open>Properties of the Speos writer and reader\<close>

lemma file_lines_acc_line:
  assumes "nl \<notin> set l"
  shows "file_lines_acc cur (l @ nl # t) = (cur @ l @ [nl]) # file_lines_acc [] t"
  using assms by (induction l arbitrary: cur) auto

lemma file_lines_first:
  assumes "nl \<notin> set l"
  shows "file_lines (l @ [nl] @ t) = (l @ [nl]) # file_lines t"
  using file_lines_acc_line [OF assms, of "[]" t] by (simp add: file_lines_def)

lemma write_speos_header_first:
  assumes "write_speos_header_bsdf binaryMode anisotropyVector scatterType nbSampleRotation
             nbAngleIncidence sampleRotation angleIncidence tisData = Inr nLines"
  shows "\<exists>rest. nLines = Lit (''OPTIS - Anisotropic BSDF surface file v7.0'' @ [nl]) # rest"
  using assms
  by (auto simp: write_speos_header_bsdf_def Let_def bindE_Inr_iff)

lemma write_speos_data_prefix:
  assumes "write_speos_data_bsdf nLines scatterType nbSampleRotation nbAngleIncidence
             line_theta line_phi bsdfDataSpeos = Inr nLines'"
  shows "\<exists>rest. nLines' = nLines @ rest"
  using assms by (auto simp: write_speos_data_bsdf_def bindE_Inr_iff)

lemma version_token:
  "drop 1 (last (split_on (CHR '' '') (butlast (''OPTIS - Anisotropic BSDF surface file v7.0'' @ [nl]))))
     = ''7.0''"
  by (simp add: split_on_def nl_def)

lemma read_speos_rejects_old_version:
  assumes "py_float B (drop 1 (last (split_on (CHR '' '') (butlast headerLine)))) = Inr v"
    and "v < 8"
  shows "read_speos_bsdf B inputFilepath (headerLine # ls, out)
           = (Inl SystemExit,
              (ls, out @ [''.....WARNING: The format is not supported.'',
                          ''.....Open and save the file with the BSDF viewer to update the format.'',
                          ''.....Press Enter to continue'']))"
  using assms by (simp add: read_speos_bsdf_def Let_def io_defs)

text \<open>
  C10. Whatever the dataset, a file the Speos writer produces starts with the line
  \<open>OPTIS - Anisotropic BSDF surface file v7.0\<close>, whose last token is \<open>v7.0\<close>;
  the Speos reader exits on every file whose version token parses below 8; so it exits
  on the writer's file (\<open>float\<close> reading \<open>7.0\<close> as 7).
\<close>

theorem speos_reader_rejects_speos_writer_output:
  assumes "float_of B ''7.0'' = Some 7"
    and "write_speos_header_bsdf binaryMode anisotropyVector scatterType nbSampleRotation
           nbAngleIncidence sampleRotation angleIncidence tisData = Inr nLines"
    and "write_speos_data_bsdf nLines scatterType nbSampleRotation nbAngleIncidence
           line_theta line_phi bsdfDataSpeos = Inr nLines'"
  shows "hd (file_lines (render str_float sci_float nLines'))
           = ''OPTIS - Anisotropic BSDF surface file v7.0'' @ [nl]
       \<and> last (split_on (CHR '' '') (butlast (hd (file_lines (render str_float sci_float nLines')))))
           = ''v7.0''
       \<and> (\<forall>headerLine ls v.
             py_float B (drop 1 (last (split_on (CHR '' '') (butlast headerLine)))) = Inr v \<and> v < 8
             \<longrightarrow> fst (read_speos_bsdf B anyFilepath (headerLine # ls, out)) = Inl SystemExit)
       \<and> fst (read_speos_bsdf B inputFilepath (file_lines (render str_float sci_float nLines'), out))
           = Inl SystemExit"
proof -
  let ?h = "''OPTIS - Anisotropic BSDF surface file v7.0''"
  from write_speos_header_first [OF assms(2)] write_speos_data_prefix [OF assms(3)]
  obtain rest where n: "nLines' = Lit (?h @ [nl]) # rest" by auto
  have r: "render str_float sci_float nLines' = ?h @ [nl] @ render str_float sci_float rest"
    by (simp add: n render_def render_piece_def)
  have "nl \<notin> set ?h" by (simp add: nl_def)
  then have fl: "file_lines (render str_float sci_float nLines')
      = (?h @ [nl]) # file_lines (render str_float sci_float rest)"
    unfolding r by (rule file_lines_first)
  have tok: "last (split_on (CHR '' '') (butlast (?h @ [nl]))) = ''v7.0''"
    by (simp add: split_on_def nl_def)
  have pf: "py_float B (drop 1 (last (split_on (CHR '' '') (butlast (?h @ [nl]))))) = Inr 7"
    unfolding version_token by (simp add: py_float_def assms(1))
  have rej: "fst (read_speos_bsdf B p (headerLine # ls, out)) = Inl SystemExit"
    if "py_float B (drop 1 (last (split_on (CHR '' '') (butlast headerLine)))) = Inr v" "v < 8"
    for p headerLine ls v
    using read_speos_rejects_old_version [OF that] by simp
  have "fst (read_speos_bsdf B inputFilepath
              ((?h @ [nl]) # file_lines (render str_float sci_float rest), out)) = Inl SystemExit"
    by (rule rej [OF pf]) simp
  with fl tok rej show ?thesis by (simp only: list.sel) blast
qed

theorem speos_reader_rejects_speos_writer_output_witness:
  "\<exists>nLines nLines'.
     write_speos_header_bsdf 0 [0, 1, 0] ''BRDF'' 1 1 [0] [30] [[1 / 2]] = Inr nLines
   \<and> write_speos_data_bsdf nLines ''BRDF'' 1 1 [0, 90] [0, 360] [[ [[1, 1], [1, 1]] ]] = Inr nLines'
   \<and> fst (read_speos_bsdf plain_builtins ''sample.brdf''
            (file_lines (render (\<lambda>x. ''1.0'') (\<lambda>x. ''1.000e+00'') nLines'), []))
       = Inl SystemExit"
proof -
  have h1: "float_of plain_builtins ''7.0'' = Some 7"
    by (simp add: text_defs)
  obtain nLines where h2:
    "write_speos_header_bsdf 0 [0, 1, 0] ''BRDF'' 1 1 [0] [30] [[1 / 2]] = Inr nLines"
    by (simp add: write_speos_header_bsdf_def get_def get2_def bindE_def Let_def)
  obtain nLines' where h3:
    "write_speos_data_bsdf nLines ''BRDF'' 1 1 [0, 90] [0, 360] [[ [[1, 1], [1, 1]] ]] = Inr nLines'"
    by (simp add: write_speos_data_bsdf_def speos_slice_def speos_value_def get_def get2_def
        bindE_def Let_def numeral_2_eq_2)
  from speos_reader_rejects_speos_writer_output [OF h1 h2 h3] h2 h3
  show ?thesis by blast
qed

text \<open>
  The comparison of the flag read from the second line with the integer 0 is never true:
  what the reader returns and prints does not depend on the second line at all.
\<close>

lemma speos_reader_ignores_text_flag:
  "fst (read_speos_bsdf B inputFilepath (headerLine # flagLine # ls, out))
     = fst (read_speos_bsdf B inputFilepath (headerLine # otherLine # ls, out))
   \<and> snd (snd (read_speos_bsdf B inputFilepath (headerLine # flagLine # ls, out)))
     = snd (snd (read_speos_bsdf B inputFilepath (headerLine # otherLine # ls, out)))"
proof (cases "py_float B (drop 1 (last (split_on (CHR '' '') (butlast headerLine))))")
  case (Inl e)
  then show ?thesis by (simp add: read_speos_bsdf_def Let_def io_defs)
next
  case (Inr v)
  show ?thesis
  proof (cases "v < 8")
    case True
    with Inr show ?thesis by (simp add: read_speos_bsdf_def Let_def io_defs)
  next
    case False
    with Inr show ?thesis
      by (simp add: read_speos_bsdf_def Let_def bindIO_def liftE_def readline_def str_eq_int_def)
  qed
qed

text \<open>
  C5. The claim is that a file whose second line is the flag 0 makes the reader fail
  fatally. The file below has that flag; the reader prints nothing and returns its data.
\<close>

theorem speos_reader_accepts_flag_zero:
  "read_speos_bsdf plain_builtins ''sample.brdf''
     ([''OPTIS - Anisotropic BSDF surface file v8.0'' @ [nl],
       ''0'' @ [nl],
       ''Comment'' @ [nl],
       ''23'' @ [nl],
       ''Measurement description'' @ [nl],
       ''1'' @ [tab] @ ''0'' @ [nl],
       ''1'' @ [nl],
       ''1'' @ [tab] @ ''1'' @ [nl],
       ''0'' @ [nl],
       ''550'' @ [nl],
       ''50'' @ [nl],
       ''2 2'' @ [nl],
       [tab] @ ''0'' @ [tab] @ ''180'' @ [nl],
       ''0'' @ [tab] @ ''1'' @ [tab] @ ''2'' @ [nl],
       ''90'' @ [tab] @ ''3'' @ [tab] @ ''4'' @ [nl],
       ''End of file'' @ [nl]], [])
   = (Inr (1, 1, ''BRDF'', ''Asymmetrical'', 1, 1, [0], [550], [[0, 90]], [[0, 180]], [[50]],
           [[[1, 3], [2, 4]]]),
      ([''End of file'' @ [nl]], []))"
proof -
  have tr: "transpose [[1, 2], [3, 4 :: real]] = [[1, 3], [2, 4]]" by code_simp
  show ?thesis
    by (simp add: read_speos_bsdf_def read_speos_block_def read_speos_row_def text_defs io_defs tr
        numeral_2_eq_2 Let_def)
qed

section \<open>Properties of the Zemax reader\<close>

lemmas zemax_defs = read_zemax_bsdf_def read_zemax_header_def read_zemax_data_def
  read_zemax_slice_def read_header_text_def read_axis_count_def read_axis_values_def
  read_uncommented_def

lemma bindIO_Inr_iff:
  "bindIO m f s = (Inr y, s') \<longleftrightarrow> (\<exists>v s1. m s = (Inr v, s1) \<and> f v s1 = (Inr y, s'))"
  by (cases "m s") (auto simp: bindIO_def split: sum.splits)

lemma liftE_Inr_iff: "liftE r s = (Inr y, s') \<longleftrightarrow> r = Inr y \<and> s' = s"
  by (auto simp: liftE_def)

lemma mapE_length:
  assumes "mapE f xs = Inr ys"
  shows "length ys = length xs"
  using assms by (induction xs arbitrary: ys) (auto simp: bindE_Inr_iff)

lemma read_axis_values_Some:
  assumes "read_axis_values B warning declared s = (Inr (Some values), s')"
  shows "int (length values) = declared"
proof -
  from assms obtain valuesLine s1 where
    r: "(let tokens = split_ws (butlast valuesLine)
         in if tokens = [] then raiseIO IndexError
            else if int (length tokens) \<noteq> declared
            then bindIO (print warning) (\<lambda>_. returnIO None)
            else bindIO (liftE (mapE (py_float B) tokens)) (\<lambda>values. returnIO (Some values))) s1
        = (Inr (Some values), s')"
    unfolding read_axis_values_def bindIO_Inr_iff by blast
  define tokens where "tokens = split_ws (butlast valuesLine)"
  from r have ne: "tokens \<noteq> []"
    by (auto simp: tokens_def Let_def raiseIO_def split: if_splits)
  from r ne have eq: "int (length tokens) = declared"
    by (auto simp: tokens_def Let_def bindIO_Inr_iff returnIO_def print_def split: if_splits)
  from r ne eq have "mapE (py_float B) tokens = Inr values"
    by (auto simp: tokens_def [symmetric] Let_def bindIO_Inr_iff returnIO_def liftE_Inr_iff)
  then show ?thesis using eq mapE_length by fastforce
qed

lemma np_size_Inr: "np_size n = Inr m \<Longrightarrow> int m = n"
  by (auto simp: np_size_def split: if_splits)

lemma read_zemax_header_counts:
  assumes "read_zemax_header B s
             = (Inr (scatterType, symmetry, nbSampleRotation, nbAngleIncidence, nbScatterAzimuth,
                     nbScatterRadial, sampleRotation, angleIncidence, scatterAzimuth, scatterRadial), s')"
  shows "(\<forall>v. sampleRotation = Some v \<longrightarrow> int (length v) = nbSampleRotation)
       \<and> (\<forall>v. angleIncidence = Some v \<longrightarrow> int (length v) = nbAngleIncidence)
       \<and> (\<forall>v. scatterAzimuth = Some v \<longrightarrow> int (length v) = nbScatterAzimuth)
       \<and> (\<forall>v. scatterRadial = Some v \<longrightarrow> int (length v) = nbScatterRadial)"
  using assms unfolding read_zemax_header_def bindIO_Inr_iff returnIO_def
  by (elim exE conjE) (simp, metis read_axis_values_Some)

lemma read_zemax_data_Inr:
  assumes "read_zemax_data B scatterType symmetry nbSampleRotation nbAngleIncidence
             nbScatterAzimuth nbScatterRadial sampleRotation angleIncidence scatterAzimuth
             scatterRadial s
           = (Inr (st, sy, nSR, nAI, nAz, nRad, ai, sr, rad, az, tis, bsdf), s')"
  shows "angleIncidence = Some ai \<and> sampleRotation = Some sr
       \<and> scatterRadial = Some rad \<and> scatterAzimuth = Some az
       \<and> int nSR = nbSampleRotation \<and> int nAI = nbAngleIncidence
       \<and> int nAz = nbScatterAzimuth \<and> int nRad = nbScatterRadial"
  using assms unfolding read_zemax_data_def bindIO_Inr_iff liftE_Inr_iff
  by (elim exE conjE)
     (auto simp: returnIO_def raiseIO_def dest: np_size_Inr split: option.splits)

text \<open>
  Every dataset the reader returns has axes of the declared lengths: a header whose
  values line disagrees with its declared count never leads to a returned dataset.
\<close>

lemma read_zemax_bsdf_success_counts:
  assumes "read_zemax_bsdf B s
           = Done (Inr (st, sy, nSR, nAI, nAz, nRad, ai, sr, rad, az, tis, bsdf), s')"
  shows "length sr = nSR \<and> length ai = nAI \<and> length az = nAz \<and> length rad = nRad"
proof -
  obtain r s1 where h: "read_zemax_header B s = (r, s1)" by (cases "read_zemax_header B s")
  from assms h obtain scatterType symmetry nbSR nbAI nbAz nbRad sampleRotation angleIncidence
      scatterAzimuth scatterRadial
    where r: "r = Inr (scatterType, symmetry, nbSR, nbAI, nbAz, nbRad, sampleRotation,
                       angleIncidence, scatterAzimuth, scatterRadial)"
    by (cases r) (auto simp: read_zemax_bsdf_def)
  from assms h r obtain ls where
    d: "read_zemax_data B scatterType symmetry nbSR nbAI nbAz nbRad sampleRotation angleIncidence
          scatterAzimuth scatterRadial (ls, snd s1)
        = (Inr (st, sy, nSR, nAI, nAz, nRad, ai, sr, rad, az, tis, bsdf), s')"
    by (auto simp: read_zemax_bsdf_def split: outcome.splits)
  note c = read_zemax_header_counts [OF h [unfolded r]]
  note v = read_zemax_data_Inr [OF d]
  from c v show ?thesis by auto
qed

text \<open>
  C3. The claim is that a values line whose token count differs from the declared count
  costs a warning only, the reader going on with the values it parsed. In the file below
  the header declares two sample rotations and gives one. The reader prints the warning,
  reads the data section to its end and then raises UnboundLocalError: the branch that
  warns never assigns \<open>sampleRotation\<close>, which the \<open>return\<close> reads.
\<close>

theorem count_mismatch_aborts_the_reader:
  "read_zemax_bsdf plain_builtins
     ([''Source  Measured'' @ [nl],
       ''Symmetry  PlaneSymmetrical'' @ [nl],
       ''SpectralContent  Monochrome'' @ [nl],
       ''ScatterType  BRDF'' @ [nl],
       ''SampleRotation  2'' @ [nl],
       ''0'' @ [nl],
       ''AngleOfIncidence  1'' @ [nl],
       ''0'' @ [nl],
       ''ScatterAzimuth 2'' @ [nl],
       ''0'' @ [tab] @ ''180'' @ [nl],
       ''ScatterRadial 2'' @ [nl],
       ''0'' @ [tab] @ ''90'' @ [nl],
       ''DataBegin'' @ [nl],
       ''TIS 0.5'' @ [nl],
       ''1'' @ [tab] @ ''1'' @ [nl],
       ''1'' @ [tab] @ ''1'' @ [nl],
       ''TIS 0.5'' @ [nl],
       ''1'' @ [tab] @ ''1'' @ [nl],
       ''1'' @ [tab] @ ''1'' @ [nl],
       ''DataEnd'' @ [nl]], [])
   = Done (Inl (UnboundLocalError ''sampleRotation''),
           ([''DataEnd'' @ [nl]], [''.....WARNING: Wrong data for sample rotation values'']))"
  by (simp add: zemax_defs text_defs io_defs numeral_2_eq_2 Let_def)

section \<open>Properties of the data writers\<close>

lemma mapE_Inr_map:
  assumes "mapE f xs = Inr ys"
    and "\<And>x y. x \<in> set xs \<Longrightarrow> f x = Inr y \<Longrightarrow> y = g x"
  shows "ys = map g xs"
  using assms
proof (induction xs arbitrary: ys)
  case Nil
  then show ?case by simp
next
  case (Cons x xs)
  from Cons.prems(1) obtain y ys' where y: "f x = Inr y" and r: "mapE f xs = Inr ys'"
    and e: "ys = y # ys'"
    by (auto simp: bindE_Inr_iff)
  have "y = g x" using Cons.prems(2) [of x y] y by simp
  moreover have "ys' = map g xs" using Cons.IH [OF r] Cons.prems(2) by simp
  ultimately show ?case using e by simp
qed

lemma get_Inr: "get xs i = Inr v \<Longrightarrow> v = xs ! i"
  by (auto simp: get_def split: if_splits)

lemma get2_Inr: "get2 a i j = Inr v \<Longrightarrow> v = a ! i ! j"
  by (auto simp: get2_def bindE_Inr_iff dest!: get_Inr)

lemma nd_get_Inr: "nd_get a i0 i1 l k = Inr v \<Longrightarrow> v = snd a ! i0 ! i1 ! nat l ! k"
  by (auto simp: nd_get_def split: prod.splits if_splits)

lemma zemax_row_text:
  assumes "zemax_row bsdfData index_angle index_wavelength k = Inr row"
    and "fst bsdfData = (s0, s1, s2, s3)"
  shows "row = concat (map (\<lambda>l. [Sci (snd bsdfData ! index_angle ! index_wavelength ! l ! k),
                                   Lit [tab]]) [0..<s2 - 1])
             @ [Sci (snd bsdfData ! index_angle ! index_wavelength ! (s2 - 1) ! k), Lit [nl]]"
proof -
  from assms obtain cells v where
    c: "mapE (\<lambda>l. bindE (nd_get bsdfData index_angle index_wavelength (int l) k)
                     (\<lambda>v. Inr [Sci v, Lit [tab]])) [0..<s2 - 1] = Inr cells"
    and v: "nd_get bsdfData index_angle index_wavelength (int s2 - 1) k = Inr v"
    and r: "row = concat cells @ [Sci v, Lit [nl]]"
    by (auto simp: zemax_row_def bindE_Inr_iff)
  have "cells = map (\<lambda>l. [Sci (snd bsdfData ! index_angle ! index_wavelength ! l ! k),
                           Lit [tab]]) [0..<s2 - 1]"
    by (rule mapE_Inr_map [OF c]) (auto simp: bindE_Inr_iff dest!: nd_get_Inr)
  moreover have "v = snd bsdfData ! index_angle ! index_wavelength ! (s2 - 1) ! k"
    using nd_get_Inr [OF v] by (simp add: nat_diff_distrib')
  ultimately show ?thesis using r by simp
qed

lemma zemax_slice_text:
  assumes "zemax_slice index_wavelength index_RT nbAngleIncidence tisData bsdfData j = Inr sl"
    and "fst bsdfData = (s0, s1, s2, s3)"
  shows "sl = [Lit ''TIS '', Num (py_round_nd (tisData ! j ! index_wavelength / 100) 3), Lit [nl]]
            @ concat (map (\<lambda>k.
                concat (map (\<lambda>l.
                    [Sci (snd bsdfData ! (j + nbAngleIncidence * index_RT) ! index_wavelength
                            ! l ! k), Lit [tab]]) [0..<s2 - 1])
                @ [Sci (snd bsdfData ! (j + nbAngleIncidence * index_RT) ! index_wavelength
                          ! (s2 - 1) ! k), Lit [nl]]) [0..<s3])"
proof -
  from assms obtain tis rows where
    t: "get2 tisData j index_wavelength = Inr tis"
    and m: "mapE (zemax_row bsdfData (j + nbAngleIncidence * index_RT) index_wavelength) [0..<s3]
              = Inr rows"
    and s: "sl = [Lit ''TIS '', Num (py_round_nd (tis / 100) 3), Lit [nl]] @ concat rows"
    by (auto simp: zemax_slice_def Let_def bindE_Inr_iff)
  have "rows = map (\<lambda>k.
                concat (map (\<lambda>l.
                    [Sci (snd bsdfData ! (j + nbAngleIncidence * index_RT) ! index_wavelength
                            ! l ! k), Lit [tab]]) [0..<s2 - 1])
                @ [Sci (snd bsdfData ! (j + nbAngleIncidence * index_RT) ! index_wavelength
                          ! (s2 - 1) ! k), Lit [nl]]) [0..<s3]"
    by (rule mapE_Inr_map [OF m]) (rule zemax_row_text [OF _ assms(2)])
  with s get2_Inr [OF t] show ?thesis by simp
qed

lemma write_zemax_data_text:
  assumes "write_zemax_data_bsdf index_wavelength index_RT nbSampleRotation nbAngleIncidence
             tisData bsdfData = Inr out"
  shows "out = zemax_data_text index_wavelength index_RT nbSampleRotation nbAngleIncidence
                 tisData bsdfData"
proof -
  obtain s0 s1 s2 s3 where sh: "fst bsdfData = (s0, s1, s2, s3)"
    by (cases "fst bsdfData") auto
  from assms obtain slices where
    m: "mapE (\<lambda>(i, j). zemax_slice index_wavelength index_RT nbAngleIncidence tisData bsdfData j)
          (List.product [0..<nbSampleRotation] [0..<nbAngleIncidence]) = Inr slices"
    and o: "out = concat slices @ [Lit (''DataEnd'' @ [nl])]"
    by (auto simp: write_zemax_data_bsdf_def bindE_Inr_iff)
  have "slices = map (\<lambda>(i, j).
            [Lit ''TIS '', Num (py_round_nd (tisData ! j ! index_wavelength / 100) 3), Lit [nl]]
            @ concat (map (\<lambda>k.
                concat (map (\<lambda>l.
                    [Sci (snd bsdfData ! (j + nbAngleIncidence * index_RT) ! index_wavelength
                            ! l ! k), Lit [tab]]) [0..<s2 - 1])
                @ [Sci (snd bsdfData ! (j + nbAngleIncidence * index_RT) ! index_wavelength
                          ! (s2 - 1) ! k), Lit [nl]]) [0..<s3]))
          (List.product [0..<nbSampleRotation] [0..<nbAngleIncidence])"
  proof (rule mapE_Inr_map [OF m])
    fix x y
    assume "(case x of (i, j) \<Rightarrow>
               zemax_slice index_wavelength index_RT nbAngleIncidence tisData bsdfData j) = Inr y"
    then show "y = (case x of (i, j) \<Rightarrow>
            [Lit ''TIS '', Num (py_round_nd (tisData ! j ! index_wavelength / 100) 3), Lit [nl]]
            @ concat (map (\<lambda>k.
                concat (map (\<lambda>l.
                    [Sci (snd bsdfData ! (j + nbAngleIncidence * index_RT) ! index_wavelength
                            ! l ! k), Lit [tab]]) [0..<s2 - 1])
                @ [Sci (snd bsdfData ! (j + nbAngleIncidence * index_RT) ! index_wavelength
                          ! (s2 - 1) ! k), Lit [nl]]) [0..<s3]))"
      using zemax_slice_text [OF _ sh] by (cases x) auto
  qed
  with o show ?thesis by (simp add: zemax_data_text_def sh)
qed

lemma speos_value_text:
  assumes "speos_value scatterType currentTheta bsdfDataSpeos i j k phi_idx = Inr y"
  shows "y = speos_written_value scatterType currentTheta (bsdfDataSpeos ! i ! j ! k ! phi_idx)"
  using assms
  by (auto simp: speos_value_def speos_written_value_def bindE_Inr_iff Let_def
      dest!: get2_Inr split: if_splits)

lemma speos_slice_text:
  assumes "speos_slice scatterType line_theta line_phi bsdfDataSpeos i j = Inr sl"
  shows "sl = [Lit (str_int (int (length line_theta)) @ '' '' @ str_int (int (length line_phi))
                     @ [nl])]
         @ concat (map (\<lambda>x. [Lit [tab], Num (line_phi ! x)]) [0..<length line_phi])
         @ [Lit [nl]]
         @ concat (map (\<lambda>k.
             [Num (line_theta ! k)]
             @ concat (map (\<lambda>phi_idx.
                 speos_written_value scatterType (line_theta ! k)
                   (bsdfDataSpeos ! i ! j ! k ! phi_idx)) [0..<length line_phi])
             @ [Lit [nl]]) [0..<length line_theta])"
proof -
  from assms obtain phis rows where
    p: "mapE (\<lambda>x. bindE (get line_phi x) (\<lambda>currentPhi. Inr [Lit [tab], Num currentPhi]))
          [0..<length line_phi] = Inr phis"
    and r: "mapE (\<lambda>k.
              bindE (get line_theta k) (\<lambda>currentTheta.
              bindE (mapE (speos_value scatterType currentTheta bsdfDataSpeos i j k)
                       [0..<length line_phi])
                (\<lambda>vals. Inr ([Num currentTheta] @ concat vals @ [Lit [nl]]))))
            [0..<length line_theta] = Inr rows"
    and s: "sl = [Lit (str_int (int (length line_theta)) @ '' '' @ str_int (int (length line_phi))
                        @ [nl])]
              @ concat phis @ [Lit [nl]] @ concat rows"
    by (auto simp: speos_slice_def Let_def bindE_Inr_iff)
  have ph: "phis = map (\<lambda>x. [Lit [tab], Num (line_phi ! x)]) [0..<length line_phi]"
    by (rule mapE_Inr_map [OF p]) (auto simp: bindE_Inr_iff dest!: get_Inr)
  have ro: "rows = map (\<lambda>k.
             [Num (line_theta ! k)]
             @ concat (map (\<lambda>phi_idx.
                 speos_written_value scatterType (line_theta ! k)
                   (bsdfDataSpeos ! i ! j ! k ! phi_idx)) [0..<length line_phi])
             @ [Lit [nl]]) [0..<length line_theta]"
  proof (rule mapE_Inr_map [OF r])
    fix k y
    assume "bindE (get line_theta k) (\<lambda>currentTheta.
              bindE (mapE (speos_value scatterType currentTheta bsdfDataSpeos i j k)
                       [0..<length line_phi])
                (\<lambda>vals. Inr ([Num currentTheta] @ concat vals @ [Lit [nl]]))) = Inr y"
    then obtain vals where
      v: "mapE (speos_value scatterType (line_theta ! k) bsdfDataSpeos i j k)
            [0..<length line_phi] = Inr vals"
      and y: "y = [Num (line_theta ! k)] @ concat vals @ [Lit [nl]]"
      by (auto simp: bindE_Inr_iff dest!: get_Inr)
    have "vals = map (\<lambda>phi_idx.
                 speos_written_value scatterType (line_theta ! k)
                   (bsdfDataSpeos ! i ! j ! k ! phi_idx)) [0..<length line_phi]"
      by (rule mapE_Inr_map [OF v]) (rule speos_value_text)
    with y show "y = [Num (line_theta ! k)]
             @ concat (map (\<lambda>phi_idx.
                 speos_written_value scatterType (line_theta ! k)
                   (bsdfDataSpeos ! i ! j ! k ! phi_idx)) [0..<length line_phi])
             @ [Lit [nl]]"
      by simp
  qed
  from s ph ro show ?thesis by simp
qed

lemma write_speos_data_text:
  assumes "write_speos_data_bsdf nLines scatterType nbSampleRotation nbAngleIncidence
             line_theta line_phi bsdfDataSpeos = Inr out"
  shows "out = speos_data_text nLines scatterType nbSampleRotation nbAngleIncidence
                 line_theta line_phi bsdfDataSpeos"
proof -
  from assms obtain slices where
    m: "mapE (\<lambda>(i, j). speos_slice scatterType line_theta line_phi bsdfDataSpeos i j)
          (List.product [0..<nbSampleRotation] [0..<nbAngleIncidence]) = Inr slices"
    and o: "out = nLines @ concat slices @ [Lit ''End of file'', Lit [nl]]"
    by (auto simp: write_speos_data_bsdf_def bindE_Inr_iff)
  have "slices = map (\<lambda>(i, j).
         [Lit (str_int (int (length line_theta)) @ '' '' @ str_int (int (length line_phi)) @ [nl])]
         @ concat (map (\<lambda>x. [Lit [tab], Num (line_phi ! x)]) [0..<length line_phi])
         @ [Lit [nl]]
         @ concat (map (\<lambda>k.
             [Num (line_theta ! k)]
             @ concat (map (\<lambda>phi_idx.
                 speos_written_value scatterType (line_theta ! k)
                   (bsdfDataSpeos ! i ! j ! k ! phi_idx)) [0..<length line_phi])
             @ [Lit [nl]]) [0..<length line_theta]))
       (List.product [0..<nbSampleRotation] [0..<nbAngleIncidence])"
  proof (rule mapE_Inr_map [OF m])
    fix x y
    assume "(case x of (i, j) \<Rightarrow>
               speos_slice scatterType line_theta line_phi bsdfDataSpeos i j) = Inr y"
    then show "y = (case x of (i, j) \<Rightarrow>
         [Lit (str_int (int (length line_theta)) @ '' '' @ str_int (int (length line_phi)) @ [nl])]
         @ concat (map (\<lambda>x. [Lit [tab], Num (line_phi ! x)]) [0..<length line_phi])
         @ [Lit [nl]]
         @ concat (map (\<lambda>k.
             [Num (line_theta ! k)]
             @ concat (map (\<lambda>phi_idx.
                 speos_written_value scatterType (line_theta ! k)
                   (bsdfDataSpeos ! i ! j ! k ! phi_idx)) [0..<length line_phi])
             @ [Lit [nl]]) [0..<length line_theta]))"
      using speos_slice_text by (cases x) auto
  qed
  with o show ?thesis by (simp add: speos_data_text_def)
qed

text \<open>
  C6, as amended. Whenever the Zemax data writer returns, its output is
  \<open>zemax_data_text\<close>: every stored value formatted as it is, whatever the scatter type
  of the dataset (the writer does not receive it). Whenever the Speos data writer returns,
  its output is \<open>speos_data_text\<close>: for BTDF every stored value times
  \<open>cos((180 - theta) * pi / 180)\<close> for the \<open>theta\<close> of its row, for BRDF every stored
  value as it is.
\<close>

theorem data_writers_written_values:
  assumes "write_zemax_data_bsdf index_wavelength index_RT nbSampleRotation nbAngleIncidence
             tisData bsdfData = Inr zemaxLines"
    and "write_speos_data_bsdf nLines scatterType nbSampleRotation' nbAngleIncidence'
             line_theta line_phi bsdfDataSpeos = Inr speosLines"
  shows "zemaxLines = zemax_data_text index_wavelength index_RT nbSampleRotation nbAngleIncidence
                        tisData bsdfData
       \<and> speosLines = speos_data_text nLines scatterType nbSampleRotation' nbAngleIncidence'
                        line_theta line_phi bsdfDataSpeos
       \<and> speos_written_value ''BTDF'' theta v = [Lit [tab], Num (cos ((180 - theta) * pi / 180) * v)]
       \<and> speos_written_value ''BRDF'' theta v = [Lit [tab], Num v]"
  using write_zemax_data_text [OF assms(1)] write_speos_data_text [OF assms(2)]
  by (simp add: speos_written_value_def)

theorem data_writers_written_values_witness:
  "write_zemax_data_bsdf 0 0 1 1 [[50]] ((1, 1, 2, 1), [[ [[1], [1]] ]])
     = Inr [Lit ''TIS '', Num (1 / 2), Lit [nl], Sci 1, Lit [tab], Sci 1, Lit [nl],
            Lit (''DataEnd'' @ [nl])]
   \<and> write_speos_data_bsdf [] ''BTDF'' 1 1 [90, 180] [0] [[ [[1], [1]] ]]
     = Inr [Lit (''2 1'' @ [nl]), Lit [tab], Num 0, Lit [nl],
            Num 90, Lit [tab], Num 0, Lit [nl],
            Num 180, Lit [tab], Num 1, Lit [nl],
            Lit ''End of file'', Lit [nl]]"
proof -
  have z: "write_zemax_data_bsdf 0 0 1 1 [[50]] ((1, 1, 2, 1), [[ [[1], [1]] ]])
     = Inr [Lit ''TIS '', Num (1 / 2), Lit [nl], Sci 1, Lit [tab], Sci 1, Lit [nl],
            Lit (''DataEnd'' @ [nl])]"
    by (simp add: write_zemax_data_bsdf_def zemax_slice_def zemax_row_def nd_get_def get2_def
        get_def bindE_def py_round_nd_def py_round_def Let_def)
  have s: "write_speos_data_bsdf [] ''BTDF'' 1 1 [90, 180] [0] [[ [[1], [1]] ]]
     = Inr [Lit (''2 1'' @ [nl]), Lit [tab], Num 0, Lit [nl],
            Num 90, Lit [tab], Num 0, Lit [nl],
            Num 180, Lit [tab], Num 1, Lit [nl],
            Lit ''End of file'', Lit [nl]]"
    by (simp add: write_speos_data_bsdf_def speos_slice_def speos_value_def get2_def
        get_def bindE_def Let_def numeral_2_eq_2 str_int_def str_nat.simps)
  from data_writers_written_values [OF z s] z s show ?thesis by simp
qed

text \<open>
  C6, as stated, fails: for a slice holding the value 1 at two radial samples the Zemax
  writer writes \<open>Sci 1\<close> twice. With the cosine of the claim the first value would be
  \<open>cos 180\<degree> = -1\<close> (radial axis starting at 0) or \<open>cos 90\<degree> = 0\<close> (radial axis
  starting at 90).
\<close>

theorem zemax_writer_applies_no_cosine:
  "write_zemax_data_bsdf 0 0 1 1 [[50]] ((1, 1, 2, 1), [[ [[1], [1]] ]])
     = Inr [Lit ''TIS '', Num (1 / 2), Lit [nl], Sci 1, Lit [tab], Sci 1, Lit [nl],
            Lit (''DataEnd'' @ [nl])]
   \<and> Sci 1 \<noteq> Sci (cos ((180 - 0) * pi / 180) * 1)
   \<and> Sci 1 \<noteq> Sci (cos ((180 - 90) * pi / 180) * 1)"
  by (simp add: write_zemax_data_bsdf_def zemax_slice_def zemax_row_def nd_get_def get2_def
      get_def bindE_def py_round_nd_def py_round_def Let_def)

section \<open>Properties of the coordinate transforms\<close>

lemma py_round_eq_0_iff: "py_round t = 0 \<longleftrightarrow> \<bar>t\<bar> \<le> 1 / 2"
proof
  assume "py_round t = 0"
  with py_round_err [of t] show "\<bar>t\<bar> \<le> 1 / 2" by simp
next
  assume a: "\<bar>t\<bar> \<le> 1 / 2"
  then have "\<lfloor>t\<rfloor> = 0 \<or> \<lfloor>t\<rfloor> = - 1" by (auto simp: floor_eq_iff abs_le_iff)
  then show "py_round t = 0"
  proof
    assume f: "\<lfloor>t\<rfloor> = 0"
    with a show ?thesis by (auto simp: py_round_def Let_def)
  next
    assume f: "\<lfloor>t\<rfloor> = - 1"
    then have "t < 0" using floor_less_iff [of t 0] by simp
    with a have "t = - (1 / 2) \<or> - (1 / 2) < t" by linarith
    with f show ?thesis by (auto simp: py_round_def Let_def)
  qed
qed

lemma py_round_pos_iff: "0 < py_round t \<longleftrightarrow> 1 / 2 < t"
proof
  assume p: "0 < py_round t"
  show "1 / 2 < t"
  proof (rule ccontr)
    assume "\<not> 1 / 2 < t"
    then have le: "t \<le> 1 / 2" by simp
    have "py_round t \<le> 0"
    proof (cases "\<lfloor>t\<rfloor> \<le> - 1")
      case True
      then show ?thesis by (auto simp: py_round_def Let_def)
    next
      case False
      then have "0 \<le> \<lfloor>t\<rfloor>" by linarith
      moreover have "\<lfloor>t\<rfloor> \<le> 0" using le floor_le_iff [of t 0] by simp
      ultimately have f: "\<lfloor>t\<rfloor> = 0" by linarith
      with le show ?thesis by (auto simp: py_round_def Let_def)
    qed
    with p show False by simp
  qed
next
  assume "1 / 2 < t"
  with py_round_err [of t] have "0 < real_of_int (py_round t)" by linarith
  then show "0 < py_round t" by simp
qed

lemma py_atan2_polar:
  assumes "0 < r" "- pi < a" "a \<le> pi"
  shows "py_atan2 (r * sin a) (r * cos a) = a"
proof -
  have q: "r * sin a / (r * cos a) = tan a" using assms(1) by (simp add: tan_def)
  have val: "py_atan2 (r * sin a) (r * cos a) =
     (if 0 < r * cos a then arctan (tan a)
      else if r * cos a < 0
           then (if 0 \<le> r * sin a then arctan (tan a) + pi else arctan (tan a) - pi)
      else if 0 < r * sin a then pi / 2
      else if r * sin a < 0 then - (pi / 2)
      else 0)"
    unfolding py_atan2_def q by (rule refl)
  consider (mid) "- (pi / 2) < a" "a < pi / 2"
    | (up) "pi / 2 < a"
    | (low) "a < - (pi / 2)"
    | (top) "a = pi / 2" | (bot) "a = - (pi / 2)"
    by linarith
  then show ?thesis
  proof cases
    case mid
    then have "0 < cos a" by (simp add: cos_gt_zero_pi)
    then have "0 < r * cos a" using assms(1) by simp
    then show ?thesis using mid unfolding val by (simp add: arctan_tan)
  next
    case up
    have c: "cos (a - pi) = - cos a" by simp
    have "0 < cos (a - pi)" using up assms(3) by (intro cos_gt_zero_pi) simp_all
    then have "cos a < 0" unfolding c by simp
    then have xneg: "r * cos a < 0" using assms(1) by (simp add: mult_pos_neg)
    have "0 \<le> sin a" using up assms(3) by (intro sin_ge_zero) simp_all
    then have ypos: "0 \<le> r * sin a" using assms(1) by simp
    have "tan (a - pi) = tan a" by (simp add: tan_def)
    moreover have "arctan (tan (a - pi)) = a - pi" using up assms(3) by (intro arctan_tan) simp_all
    ultimately have "arctan (tan a) = a - pi" by simp
    then show ?thesis using xneg ypos unfolding val by simp
  next
    case low
    have c: "cos (a + pi) = - cos a" by simp
    have "0 < cos (a + pi)" using low assms(2) by (intro cos_gt_zero_pi) simp_all
    then have "cos a < 0" unfolding c by simp
    then have xneg: "r * cos a < 0" using assms(1) by (simp add: mult_pos_neg)
    have s: "sin (a + pi) = - sin a" by simp
    have "0 < sin (a + pi)" using low assms(2) by (intro sin_gt_zero) simp_all
    then have "sin a < 0" unfolding s by simp
    then have yneg: "r * sin a < 0" using assms(1) by (simp add: mult_pos_neg)
    have "tan (a + pi) = tan a" by (simp add: tan_def)
    moreover have "arctan (tan (a + pi)) = a + pi" using low assms(2) by (intro arctan_tan) simp_all
    ultimately have "arctan (tan a) = a + pi" by simp
    then show ?thesis using xneg yneg unfolding val by simp
  next
    case top
    have "cos a = 0" "sin a = 1" unfolding top by simp_all
    then show ?thesis using assms(1) unfolding val by (simp add: top)
  next
    case bot
    have "cos a = 0" "sin a = - 1" unfolding bot by simp_all
    then show ?thesis using assms(1) unfolding val by (simp add: bot)
  qed
qed

lemma polar_arctan:
  fixes x y :: real
  assumes "x \<noteq> 0"
  defines "r \<equiv> sqrt (x * x + y * y)"
    and "a \<equiv> (if x < 0 then pi + arctan (y / x) else arctan (y / x))"
  shows "r * cos a = x" and "r * sin a = y"
proof -
  have rpos: "0 < r" unfolding r_def using assms(1)
    by (metis add_pos_nonneg not_real_square_gt_zero real_sqrt_gt_0_iff zero_le_square)
  have "1 + (y / x)\<^sup>2 = (x * x + y * y) / (x * x)"
    using assms(1) by (simp add: power2_eq_square field_simps)
  then have "sqrt (1 + (y / x)\<^sup>2) = r / \<bar>x\<bar>"
    unfolding r_def by (simp add: real_sqrt_divide)
  then have c: "cos (arctan (y / x)) = \<bar>x\<bar> / r" and s: "sin (arctan (y / x)) = (y / x) * \<bar>x\<bar> / r"
    by (simp_all add: cos_arctan sin_arctan)
  show "r * cos a = x"
    using rpos assms(1) by (simp add: a_def c)
  show "r * sin a = y"
    using rpos assms(1) by (simp add: a_def s)
qed

lemma unit_rotated:
  fixes t p i :: real
  shows "(sin t * cos p * cos i - cos t * sin i) * (sin t * cos p * cos i - cos t * sin i)
       + sin t * sin p * (sin t * sin p)
       + (sin t * cos p * sin i + cos t * cos i) * (sin t * cos p * sin i + cos t * cos i) = 1"
proof -
  have "(sin t * cos p * cos i - cos t * sin i) * (sin t * cos p * cos i - cos t * sin i)
       + sin t * sin p * (sin t * sin p)
       + (sin t * cos p * sin i + cos t * cos i) * (sin t * cos p * sin i + cos t * cos i)
     = (sin t)\<^sup>2 * (cos p)\<^sup>2 * ((cos i)\<^sup>2 + (sin i)\<^sup>2) + (sin t)\<^sup>2 * (sin p)\<^sup>2
       + (cos t)\<^sup>2 * ((sin i)\<^sup>2 + (cos i)\<^sup>2)"
    by algebra
  also have "\<dots> = (sin t)\<^sup>2 * (cos p)\<^sup>2 + (sin t)\<^sup>2 * (sin p)\<^sup>2 + (cos t)\<^sup>2"
    by (simp only: sin_cos_squared_add sin_cos_squared_add2 mult_1_right)
  also have "\<dots> = (sin t)\<^sup>2 * ((cos p)\<^sup>2 + (sin p)\<^sup>2) + (cos t)\<^sup>2"
    by (simp only: distrib_left)
  also have "\<dots> = 1" by simp
  finally show ?thesis .
qed

lemma deg_shift:
  fixes d :: real
  shows "cos ((if d < 180 then d + 180 else d - 180) * (pi / 180)) = - cos (d * (pi / 180))"
    and "sin ((if d < 180 then d + 180 else d - 180) * (pi / 180)) = - sin (d * (pi / 180))"
proof -
  have a: "(d + 180) * (pi / 180) = d * (pi / 180) + pi" by (simp add: field_simps)
  have b: "(d - 180) * (pi / 180) = d * (pi / 180) - pi" by (simp add: field_simps)
  have c: "cos (x - pi) = - cos x" "sin (x - pi) = - sin x" for x :: real by simp_all
  show "cos ((if d < 180 then d + 180 else d - 180) * (pi / 180)) = - cos (d * (pi / 180))"
    by (cases "d < 180") (simp_all only: if_True if_False a b c cos_periodic_pi)
  show "sin ((if d < 180 then d + 180 else d - 180) * (pi / 180)) = - sin (d * (pi / 180))"
    by (cases "d < 180") (simp_all only: if_True if_False a b c sin_periodic_pi)
qed

lemma square_le_1:
  fixes z :: real
  assumes "z * z \<le> 1"
  shows "- 1 \<le> z" and "z \<le> 1"
  using assms abs_square_le_1 [of z] by (simp_all add: power2_eq_square abs_le_iff)

lemma n2s_direction:
  fixes theta phi inc :: real
  defines "t \<equiv> theta * (pi / 180)" and "p \<equiv> phi * (pi / 180)" and "i \<equiv> inc * pi / 180"
  defines "x' \<equiv> sin t * cos p * cos i - cos t * sin i"
    and "y' \<equiv> sin t * sin p"
    and "z' \<equiv> sin t * cos p * sin i + cos t * cos i"
  shows "\<exists>theta' phi'.
           convert_normal_to_specular_using_cartesian theta phi inc = Inr (theta', phi')
         \<and> cos (theta' * (pi / 180)) = z'
         \<and> sin (theta' * (pi / 180)) * cos (phi' * (pi / 180)) = - x'
         \<and> sin (theta' * (pi / 180)) * sin (phi' * (pi / 180)) = - y'"
proof -
  have u: "x' * x' + y' * y' + z' * z' = 1"
    unfolding x'_def y'_def z'_def by (rule unit_rotated)
  have nz: "normalize_xyz x' y' z' = Inr (x', y', z')"
    by (simp add: normalize_xyz_def u)
  have "z' * z' \<le> 1" using u
    by (metis add.commute le_add_same_cancel1 add_nonneg_nonneg zero_le_square)
  then have zb: "- 1 \<le> z'" "z' \<le> 1"
    by (rule square_le_1)+
  have ac: "py_acos z' = Inr (arccos z')" using zb by (simp add: py_acos_def)
  define r where "r = sqrt (x' * x' + y' * y')"
  have "1 - z'\<^sup>2 = x' * x' + y' * y'" using u by (simp add: power2_eq_square)
  then have sr: "sin (arccos z') = r" using zb by (simp add: sin_arccos r_def)
  have cr: "cos (arccos z') = z'" using zb by simp
  define pa where "pa = (if x' = 0
                        then (if y' < 0 then Some 270
                              else if 0 < y' then Some 90
                              else if y' = 0 then Some 0 else None)
                        else Some (if 0 < x' \<and> y' < 0
                                   then 360 + (if x' < 0 then 180 + arctan (y' / x') * (180 / pi)
                                               else arctan (y' / x') * (180 / pi))
                                   else (if x' < 0 then 180 + arctan (y' / x') * (180 / pi)
                                         else arctan (y' / x') * (180 / pi))))"
  obtain d where d: "pa = Some d" and dc: "r * cos (d * (pi / 180)) = x'"
    and ds: "r * sin (d * (pi / 180)) = y'"
  proof (cases "x' = 0")
    case True
    then have r: "r = \<bar>y'\<bar>" by (simp add: r_def)
    consider "y' = 0" | "0 < y'" | "y' < 0" by linarith
    then show ?thesis
    proof cases
      case 1
      with True r that [of 0] show ?thesis by (simp add: pa_def)
    next
      case 2
      have "(90::real) * (pi / 180) = pi / 2" by simp
      with True r 2 that [of 90] show ?thesis by (simp add: pa_def)
    next
      case 3
      have e: "(270::real) * (pi / 180) = pi / 2 + pi" by simp
      have "cos (pi / 2 + pi) = - cos (pi / 2)" "sin (pi / 2 + pi) = - sin (pi / 2)"
        by (rule cos_periodic_pi, rule sin_periodic_pi)
      then have "cos (270 * (pi / 180)) = 0" "sin (270 * (pi / 180)) = - 1"
        unfolding e by simp_all
      with True r 3 that [of 270] show ?thesis by (simp add: pa_def)
    qed
  next
    case False
    define a where "a = (if x' < 0 then pi + arctan (y' / x') else arctan (y' / x'))"
    note pol = polar_arctan [OF False, of y', folded r_def a_def]
    define q where "q = arctan (y' / x') * (180 / pi)"
    have qa: "q * (pi / 180) = arctan (y' / x')" by (simp add: q_def)
    define d where "d = (let p1 = (if x' < 0 then 180 + q else q)
                         in if 0 < x' \<and> y' < 0 then 360 + p1 else p1)"
    have "d * (pi / 180) = a \<or> d * (pi / 180) = a + 2 * pi"
      using False qa by (auto simp: d_def a_def Let_def field_simps)
    then have "cos (d * (pi / 180)) = cos a \<and> sin (d * (pi / 180)) = sin a"
    proof (elim disjE)
      assume e: "d * (pi / 180) = a"
      show ?thesis by (simp only: e)
    next
      assume e: "d * (pi / 180) = a + 2 * pi"
      show ?thesis by (simp only: e cos_periodic sin_periodic)
    qed
    with pol have "r * cos (d * (pi / 180)) = x'" "r * sin (d * (pi / 180)) = y'" by simp_all
    moreover have "pa = Some d" using False by (auto simp: pa_def d_def q_def Let_def)
    ultimately show ?thesis using that by blast
  qed
  have res0: "convert_normal_to_specular_using_cartesian theta phi inc
      = (case pa of
           None \<Rightarrow> Inl (UnboundLocalError ''phi_o'')
         | Some p \<Rightarrow> Inr (arccos z' * (180 / pi), if p < 180 then p + 180 else p - 180))"
    unfolding convert_normal_to_specular_using_cartesian_def Let_def
      t_def [symmetric] p_def [symmetric] i_def [symmetric]
      x'_def [symmetric] y'_def [symmetric] z'_def [symmetric]
      nz bindE_def sum.case prod.case ac pa_def [symmetric]
    by (rule refl)
  have res: "convert_normal_to_specular_using_cartesian theta phi inc
      = Inr (arccos z' * (180 / pi), if d < 180 then d + 180 else d - 180)"
    unfolding res0 d by simp
  have th: "arccos z' * (180 / pi) * (pi / 180) = arccos z'" by simp
  show ?thesis
    apply (rule exI [of _ "arccos z' * (180 / pi)"])
    apply (rule exI [of _ "if d < 180 then d + 180 else d - 180"])
    apply (simp only: res th deg_shift cr sr)
    using dc ds apply simp
    done
qed

lemma s2n_of_direction:
  fixes theta phi inc theta' phi' :: real
  defines "t \<equiv> theta * (pi / 180)" and "p \<equiv> phi * (pi / 180)" and "i \<equiv> inc * pi / 180"
  defines "x \<equiv> sin t * cos p" and "y \<equiv> sin t * sin p" and "z \<equiv> cos t"
  assumes hz: "cos (theta' * (pi / 180)) = x * sin i + z * cos i"
    and hx: "sin (theta' * (pi / 180)) * cos (phi' * (pi / 180)) = - (x * cos i - z * sin i)"
    and hy: "sin (theta' * (pi / 180)) * sin (phi' * (pi / 180)) = - y"
  shows "convert_specular_to_normal_using_cartesian theta' phi' inc
       = (case (if py_round_nd x 2 = 0
                then (if - y < 0 then Some 90
                      else if 0 < - y then Some 270
                      else if py_round_nd (- y) 0 = 0
                      then Some (phi' * (pi / 180) * (180 / pi)) else None)
                else Some (if 0 < py_round_nd (- y) 3
                           then 360 - \<bar>py_atan2 (- y) x * (180 / pi)\<bar>
                           else \<bar>py_atan2 (- y) x * (180 / pi)\<bar>)) of
            None \<Rightarrow> Inl (UnboundLocalError ''phi_o'')
          | Some q \<Rightarrow> Inr (py_round_nd (arccos z * (180 / pi)) 2, py_round_nd q 2))"
proof -
  have xr: "- (- (x * cos i - z * sin i)) * cos i + (x * sin i + z * cos i) * sin i = x"
  proof -
    have "- (- (x * cos i - z * sin i)) * cos i + (x * sin i + z * cos i) * sin i
        = x * ((cos i)\<^sup>2 + (sin i)\<^sup>2)" by algebra
    then show ?thesis by simp
  qed
  have zr: "- (x * cos i - z * sin i) * sin i + (x * sin i + z * cos i) * cos i = z"
  proof -
    have "- (x * cos i - z * sin i) * sin i + (x * sin i + z * cos i) * cos i
        = z * ((sin i)\<^sup>2 + (cos i)\<^sup>2)" by algebra
    then show ?thesis by simp
  qed
  have u: "x * x + - y * - y + z * z = 1"
  proof -
    have "x * x + - y * - y + z * z = (sin t)\<^sup>2 * ((cos p)\<^sup>2 + (sin p)\<^sup>2) + (cos t)\<^sup>2"
      unfolding x_def y_def z_def by algebra
    then show ?thesis by simp
  qed
  have u2: "x * x + y * y + z * z = 1" using u by simp
  have nz: "normalize_xyz x (- y) z = Inr (x, - y, z)"
    by (simp add: normalize_xyz_def u2)
  have ac: "py_acos z = Inr (arccos z)" by (simp add: py_acos_def z_def)
  show ?thesis
    unfolding convert_specular_to_normal_using_cartesian_def Let_def
      i_def [symmetric] hx hy hz xr zr nz bindE_def sum.case prod.case ac
    by (rule refl)
qed

lemma py_round_nd_eq_0_iff: "py_round_nd v 2 = 0 \<longleftrightarrow> \<bar>v\<bar> \<le> 1 / 200"
proof -
  have "py_round_nd v 2 = 0 \<longleftrightarrow> py_round (v * 10 ^ 2) = 0"
    by (simp add: py_round_nd_def)
  also have "\<dots> \<longleftrightarrow> \<bar>v * 10 ^ 2\<bar> \<le> 1 / 2" by (rule py_round_eq_0_iff)
  also have "\<dots> \<longleftrightarrow> \<bar>v\<bar> \<le> 1 / 200" by (simp add: abs_mult field_simps)
  finally show ?thesis .
qed

lemma py_round_nd_pos_iff: "0 < py_round_nd v 3 \<longleftrightarrow> 1 / 2000 < v"
proof -
  have "0 < py_round_nd v 3 \<longleftrightarrow> 0 < py_round (v * 10 ^ 3)"
    by (simp add: py_round_nd_def)
  also have "\<dots> \<longleftrightarrow> 1 / 2 < v * 10 ^ 3" by (rule py_round_pos_iff)
  also have "\<dots> \<longleftrightarrow> 1 / 2000 < v" by (simp add: field_simps)
  finally show ?thesis .
qed

lemma round_trip_value:
  fixes theta phi inc :: real
  defines "t \<equiv> theta * (pi / 180)" and "p \<equiv> phi * (pi / 180)"
  assumes th: "0 \<le> theta" "theta \<le> 90" and ph: "0 \<le> phi" "phi < 360"
    and xc: "1 / 200 < \<bar>sin t * cos p\<bar>"
    and yc: "0 \<le> sin t * sin p \<or> sin t * sin p < - (1 / 2000)"
  shows "\<exists>theta' phi'.
           convert_normal_to_specular_using_cartesian theta phi inc = Inr (theta', phi')
         \<and> convert_specular_to_normal_using_cartesian theta' phi' inc
             = Inr (py_round_nd theta 2, py_round_nd phi 2)"
proof -
  define i where "i = inc * pi / 180"
  define x where "x = sin t * cos p"
  define y where "y = sin t * sin p"
  from n2s_direction [of theta phi inc, folded t_def p_def i_def]
  obtain theta' phi' where
    n: "convert_normal_to_specular_using_cartesian theta phi inc = Inr (theta', phi')"
    and hz: "cos (theta' * (pi / 180)) = sin t * cos p * sin i + cos t * cos i"
    and hx: "sin (theta' * (pi / 180)) * cos (phi' * (pi / 180))
               = - (sin t * cos p * cos i - cos t * sin i)"
    and hy: "sin (theta' * (pi / 180)) * sin (phi' * (pi / 180)) = - (sin t * sin p)"
    by blast
  note s = s2n_of_direction [where theta' = theta' and phi' = phi' and theta = theta and inc = inc
      and phi = phi, folded t_def p_def i_def, OF hz hx hy,
      folded x_def y_def]
  have t_rng: "0 \<le> t" "t \<le> pi / 2" using th by (simp_all add: t_def)
  have p_rng: "0 \<le> p" "p < 2 * pi" using ph by (simp_all add: p_def)
  have s0: "0 \<le> sin t" using t_rng by (intro sin_ge_zero) simp_all
  have "sin t \<noteq> 0" using xc by auto
  with s0 have spos: "0 < sin t" by simp
  have xr: "py_round_nd x 2 \<noteq> 0" using xc by (simp add: py_round_nd_eq_0_iff x_def)
  have tt: "arccos (cos t) * (180 / pi) = theta"
    using t_rng by (simp add: arccos_cos t_def)
  have pp: "(if 0 < py_round_nd (- y) 3
             then 360 - \<bar>py_atan2 (- y) x * (180 / pi)\<bar>
             else \<bar>py_atan2 (- y) x * (180 / pi)\<bar>) = phi"
  proof (cases "0 \<le> y")
    case True
    then have np: "\<not> 0 < py_round_nd (- y) 3" by (simp add: py_round_nd_pos_iff)
    from True spos have sp: "0 \<le> sin p" by (simp add: y_def zero_le_mult_iff)
    have ple: "p \<le> pi"
    proof (rule ccontr)
      assume "\<not> p \<le> pi"
      then have "0 < p - pi" "p - pi < pi" using p_rng by simp_all
      then have "0 < sin (p - pi)" by (rule sin_gt_zero)
      then show False using sp by simp
    qed
    have "py_atan2 (- y) x = - p \<or> py_atan2 (- y) x = p"
    proof (cases "p = pi")
      case True
      have "py_atan2 (sin t * sin pi) (sin t * cos pi) = pi"
        using spos by (intro py_atan2_polar) simp_all
      then show ?thesis by (simp add: x_def y_def True)
    next
      case False
      have "py_atan2 (sin t * sin (- p)) (sin t * cos (- p)) = - p"
        using spos ple False p_rng by (intro py_atan2_polar) simp_all
      then show ?thesis by (simp add: x_def y_def)
    qed
    then have "\<bar>py_atan2 (- y) x * (180 / pi)\<bar> = p * (180 / pi)"
      using p_rng by (auto simp: abs_mult)
    then show ?thesis using np by (simp add: p_def)
  next
    case False
    with yc have yl: "y < - (1 / 2000)" by (simp add: y_def)
    then have pos: "0 < py_round_nd (- y) 3" by (simp add: py_round_nd_pos_iff)
    from yl have "sin t * sin p < 0" by (simp add: y_def)
    with spos have sp: "sin p < 0" by (simp add: mult_less_0_iff)
    have pgt: "pi < p"
    proof (rule ccontr)
      assume "\<not> pi < p"
      then have "0 \<le> sin p" using p_rng by (intro sin_ge_zero) simp_all
      then show False using sp by simp
    qed
    have "py_atan2 (sin t * sin (2 * pi - p)) (sin t * cos (2 * pi - p)) = 2 * pi - p"
      using spos pgt p_rng by (intro py_atan2_polar) simp_all
    moreover have "sin (2 * pi - p) = - sin p" "cos (2 * pi - p) = cos p"
      by (simp_all add: sin_diff cos_diff)
    ultimately have "py_atan2 (- y) x = 2 * pi - p" by (simp add: x_def y_def)
    then have "\<bar>py_atan2 (- y) x * (180 / pi)\<bar> = (2 * pi - p) * (180 / pi)"
      using p_rng by (simp add: abs_mult)
    also have "\<dots> = 360 - phi" by (simp add: p_def field_simps)
    finally show ?thesis using pos by simp
  qed
  have "convert_specular_to_normal_using_cartesian theta' phi' inc
      = Inr (py_round_nd theta 2, py_round_nd phi 2)"
    unfolding s tt pp using xr by simp
  with n show ?thesis by blast
qed




text \<open>
  Away from the pole the rounding alone exceeds the tolerance of the claim: from
  \<open>theta = 30.001\<close> the round trip returns 30.
\<close>

lemma round_trip_loses_third_decimal:
  "\<exists>theta' phi'.
     convert_normal_to_specular_using_cartesian (30 + 1 / 1000) 0 0 = Inr (theta', phi')
   \<and> convert_specular_to_normal_using_cartesian theta' phi' 0 = Inr (30, 0)"
proof -
  have "sin (pi / 6) \<le> sin ((30 + 1 / 1000) * (pi / 180))"
    by (intro sin_monotone_2pi_le) (simp_all add: field_simps)
  then have s: "1 / 2 \<le> sin ((30 + 1 / 1000) * (pi / 180))" by (simp add: sin_30)
  then have h5: "1 / 200 < \<bar>sin ((30 + 1 / 1000) * (pi / 180)) * cos (0 * (pi / 180))\<bar>"
    by simp
  have h6: "0 \<le> sin ((30 + 1 / 1000) * (pi / 180)) * sin (0 * (pi / 180))
       \<or> sin ((30 + 1 / 1000) * (pi / 180)) * sin (0 * (pi / 180)) < - (1 / 2000)" by simp
  have r: "py_round_nd (30 + 1 / 1000) 2 = 30" "py_round_nd 0 2 = 0"
    by (simp_all add: py_round_nd_def py_round_def)
  from round_trip_value [OF _ _ _ _ h5 h6, of 0]
  show ?thesis unfolding r by simp
qed

end
